theory Spec2Isabelle
  imports Complex_Main
begin

section \<open>The ParaMEDMEM coupling layer of Code\_Saturne\<close>

text \<open>
  A shallow embedding of \<^verbatim>\<open>src/base/cs_paramedmem_coupling.cxx\<close>. Every public function
  of that file has two bodies, selected by the preprocessor symbol
  \<^verbatim>\<open>HAVE_PARAMEDMEM\<close>; the model takes the symbol as a first boolean argument
  \<open>have_paramedmem\<close> and follows the branch the preprocessor would keep.

  The members and arguments of type \<^verbatim>\<open>int\<close> and \<^verbatim>\<open>cs_lnum_t\<close> are integers, taken to
  hold values of the 32-bit range, and the counters of meshes, fields and couplings are
  taken not to reach its end. The products and sums the copy loops compute on them
  (\<open>dim * n_elts\<close>, \<open>elt_list[i] * dim + j\<close>) are 32-bit: each is reduced by \<open>int32\<close>.

  The objects of the MEDCoupling library (\<^verbatim>\<open>InterpKernelDEC\<close>, \<^verbatim>\<open>ParaMESH\<close>,
  \<^verbatim>\<open>ParaFIELD\<close>, \<^verbatim>\<open>MEDCouplingFieldDouble\<close>) are outside the file: they are records of
  what the file passes to their constructors, and an exchange channel also keeps the list of
  the method calls the file makes on it, oldest first.
\<close>

subsection \<open>Errors\<close>

text \<open>
  \<open>Bft_error msg r\<close>: the function called \<^verbatim>\<open>bft_error\<close> with message \<open>msg\<close>; \<open>r\<close> is the
  value of its \<^verbatim>\<open>return\<close> statement, reached only if the error handler returns.
  The others stand for the undefined behaviours the file can run into: a member access
  through a null pointer (\<open>Null_deref\<close>), an array access outside the array
  (\<open>Out_of_bounds\<close>), the use of a pointer member that was never assigned (\<open>Uninit_read\<close>),
  and a read through a pointer into a string that no longer exists (\<open>Dangling_read\<close>).
\<close>

datatype 'r error =
  Bft_error string 'r | Null_deref | Out_of_bounds | Uninit_read | Dangling_read

definition no_paramedmem_msg :: string where
  "no_paramedmem_msg =
     ''Error: This function cannot be called without MEDCoupling MPI support.'' @ [CHR 0x0A]"

subsection \<open>Pointers, arrays and counted loops\<close>

text \<open>A pointer that is dereferenced: \<open>None\<close> is \<^verbatim>\<open>NULL\<close>.\<close>

definition deref :: "'a option \<Rightarrow> 'r error + 'a" where
  "deref p = (case p of None \<Rightarrow> Inl Null_deref | Some x \<Rightarrow> Inr x)"

text \<open>\<^verbatim>\<open>a[i]\<close> read and written, with a C \<^verbatim>\<open>int\<close> index.\<close>

definition array_get :: "'a list \<Rightarrow> int \<Rightarrow> 'r error + 'a" where
  "array_get a i = (if 0 \<le> i \<and> i < int (length a) then Inr (a ! nat i) else Inl Out_of_bounds)"

definition array_set :: "'a list \<Rightarrow> int \<Rightarrow> 'a \<Rightarrow> 'r error + 'a list" where
  "array_set a i v =
     (if 0 \<le> i \<and> i < int (length a) then Inr (a[nat i := v]) else Inl Out_of_bounds)"

text \<open>
  The value a 32-bit \<^verbatim>\<open>int\<close> holds after an operation whose exact result is \<open>x\<close>. Signed
  overflow is undefined in C; the model gives it the two's-complement result.
\<close>

definition int32 :: "int \<Rightarrow> int" where
  "int32 x = (x + 2 ^ 31) mod 2 ^ 32 - 2 ^ 31"

text \<open>
  \<^verbatim>\<open>for (i = 0; i < n; i++) body\<close> is \<open>for_loop [0..<nat n] body\<close>: the body runs on the
  state for each index in turn and the loop stops at the first failure.
\<close>

primrec for_loop :: "nat list \<Rightarrow> (nat \<Rightarrow> 's \<Rightarrow> 'e + 's) \<Rightarrow> 's \<Rightarrow> 'e + 's" where
  "for_loop [] body s = Inr s"
| "for_loop (i # is) body s =
     (case body i s of Inl e \<Rightarrow> Inl e | Inr s' \<Rightarrow> for_loop is body s')"

subsection \<open>Data model\<close>

text \<open>Values are C \<^verbatim>\<open>double\<close>s; the file only copies them.\<close>

type_synonym double = real

datatype TypeOfField = ON_CELLS | ON_NODES

datatype TypeOfTimeDiscretization = NO_TIME | ONE_TIME | LINEAR_TIME | CONST_ON_TIME_INTERVAL

datatype NatureOfField = NoNature | IntensiveConservation

text \<open>\<^verbatim>\<open>MEDCouplingUMesh\<close>: what the file sets, and the two counts it reads.\<close>

record MEDCouplingUMesh =
  um_name :: string
  um_time_unit :: string
  um_mesh_dimension :: int
  um_number_of_cells :: int
  um_number_of_nodes :: int

text \<open>\<^verbatim>\<open>cs_medcoupling_mesh_t\<close>, the members this file uses.\<close>

record cs_medcoupling_mesh =
  sel_criteria :: string
  elt_dim :: int
  n_elts :: int
  elt_list :: "int list option"
  new_to_old :: "int list option"
  med_mesh :: MEDCouplingUMesh

text \<open>\<^verbatim>\<open>ParaMESH(mesh, group, name)\<close>: the process group and the name it was built with.\<close>

record ParaMESH =
  pm_group :: "int set"
  pm_name :: string

text \<open>\<^verbatim>\<open>ParaFIELD(type, td, para_mesh, comp_topo)\<close>.\<close>

record ParaFIELD =
  pf_type :: TypeOfField
  pf_td :: TypeOfTimeDiscretization
  pf_para_mesh :: ParaMESH
  pf_n_components :: int

text \<open>
  The member \<^verbatim>\<open>pf\<close> of a field comes from \<^verbatim>\<open>BFT_MALLOC\<close>, which does not clear memory:
  until it is assigned, it is \<open>Pf_uninit\<close>.
\<close>

datatype pf_ptr = Pf_uninit | Pf_obj ParaFIELD

text \<open>
  \<^verbatim>\<open>MEDCouplingFieldDouble\<close>: \<open>fd_time_label\<close> counts the calls of \<^verbatim>\<open>declareAsNew\<close> on its
  array.
\<close>

record MEDCouplingFieldDouble =
  fd_type :: TypeOfField
  fd_td :: TypeOfTimeDiscretization
  fd_nature :: NatureOfField
  fd_name :: string
  fd_array :: "double list"
  fd_time_label :: nat

text \<open>\<^verbatim>\<open>_paramedmem_field_t\<close>.\<close>

record paramedmem_field =
  fld_mesh_id :: int
  fld_dim :: int
  fld_td :: TypeOfTimeDiscretization
  fld_f :: MEDCouplingFieldDouble
  fld_pf :: pf_ptr

text \<open>
  \<^verbatim>\<open>_paramedmem_mesh_t\<close>; \<open>para_mesh0\<close> and \<open>para_mesh1\<close> are \<^verbatim>\<open>para_mesh[0]\<close> (send) and
  \<^verbatim>\<open>para_mesh[1]\<close> (receive).
\<close>

record paramedmem_mesh =
  mesh :: cs_medcoupling_mesh
  direction :: int
  para_mesh0 :: "ParaMESH option"
  para_mesh1 :: "ParaMESH option"

text \<open>\<^verbatim>\<open>InterpKernelDEC(source_ids, target_ids)\<close> and the calls made on it.\<close>

datatype dec_call = Synchronize | SendData | RecvData | AttachLocalField pf_ptr

record InterpKernelDEC =
  source_grp :: "int set"
  target_grp :: "int set"
  dec_calls :: "dec_call list"

definition dec_invoke :: "InterpKernelDEC \<Rightarrow> dec_call \<Rightarrow> InterpKernelDEC" where
  "dec_invoke dec m = dec\<lparr>dec_calls := dec_calls dec @ [m]\<rparr>"

text \<open>
  \<^verbatim>\<open>struct _cs_paramedmem_coupling_t\<close>. The arrays \<open>meshes\<close> and \<open>cpl_fields\<close> (the member \<^verbatim>\<open>fields\<close>) hold the
  pointed-to structures themselves; \<open>cpl_name\<close> is \<open>None\<close> once freed.
\<close>

record cs_paramedmem_coupling =
  cpl_name :: "string option"
  n_meshes :: int
  meshes :: "paramedmem_mesh list"
  n_fields :: int
  cpl_fields :: "paramedmem_field list"
  send_dec :: "InterpKernelDEC option"
  recv_dec :: "InterpKernelDEC option"
  send_synced :: int
  recv_synced :: int

text \<open>The two private globals \<^verbatim>\<open>_n_paramed_couplers\<close> and \<^verbatim>\<open>_paramed_couplers\<close>.\<close>

record registry =
  n_paramed_couplers :: int
  paramed_couplers :: "cs_paramedmem_coupling list"

definition cs_medcpl_cell_field :: int where "cs_medcpl_cell_field = 0"
definition cs_medcpl_vertex_field :: int where "cs_medcpl_vertex_field = 1"
definition cs_medcpl_no_time :: int where "cs_medcpl_no_time = 0"
definition cs_medcpl_one_time :: int where "cs_medcpl_one_time = 1"
definition cs_medcpl_linear_time :: int where "cs_medcpl_linear_time = 2"

subsection \<open>Private functions\<close>

text \<open>
  \<^verbatim>\<open>_init_mesh_coupling\<close>. \<^verbatim>\<open>cs_medcoupling_mesh_copy_from_base\<close> is defined in another
  file; its effect on the mesh structure is the parameter \<open>copy_from_base\<close>.
\<close>

definition init_mesh_coupling ::
  "(cs_medcoupling_mesh \<Rightarrow> cs_medcoupling_mesh) \<Rightarrow> cs_paramedmem_coupling \<Rightarrow>
   paramedmem_mesh \<Rightarrow> 'r error + paramedmem_mesh" where
  "init_mesh_coupling copy_from_base coupling pmesh =
     (let pmesh1 = pmesh\<lparr>mesh := copy_from_base (mesh pmesh)\<rparr> in
      case deref (send_dec coupling) of Inl e \<Rightarrow> Inl e | Inr sdec \<Rightarrow>
      let pmesh2 = pmesh1\<lparr>para_mesh0 :=
                     Some \<lparr>pm_group = source_grp sdec, pm_name = ''source mesh''\<rparr>\<rparr> in
      case deref (recv_dec coupling) of Inl e \<Rightarrow> Inl e | Inr rdec \<Rightarrow>
      Inr (pmesh2\<lparr>para_mesh1 :=
                     Some \<lparr>pm_group = target_grp rdec, pm_name = ''target mesh''\<rparr>\<rparr>))"

text \<open>
  \<^verbatim>\<open>_cs_paramedmem_create_InterpKernelDEC\<close>: an array of ranks and its size are a list;
  the two \<^verbatim>\<open>std::set<int>\<close> are the sets of its elements.
\<close>

definition cs_paramedmem_create_InterpKernelDEC :: "int list \<Rightarrow> int list \<Rightarrow> InterpKernelDEC" where
  "cs_paramedmem_create_InterpKernelDEC grp1_global_ranks grp2_global_ranks =
     \<lparr>source_grp = set grp1_global_ranks, target_grp = set grp2_global_ranks, dec_calls = []\<rparr>"

text \<open>The search loop of \<^verbatim>\<open>_add_paramedmem_interpkernel\<close>, which breaks at the first hit.\<close>

fun is_in_grp :: "int \<Rightarrow> int list \<Rightarrow> bool" where
  "is_in_grp my_rank [] = False"
| "is_in_grp my_rank (r # rs) = (if my_rank = r then True else is_in_grp my_rank rs)"

text \<open>
  \<^verbatim>\<open>_add_paramedmem_interpkernel\<close>; \<open>my_rank\<close> is what \<^verbatim>\<open>MPI_Comm_rank(MPI_COMM_WORLD, ...)\<close>
  gives. The array of couplings grows by one slot, which receives the new coupling.
\<close>

definition add_paramedmem_interpkernel ::
  "int \<Rightarrow> string \<Rightarrow> int list \<Rightarrow> int list \<Rightarrow> registry \<Rightarrow> registry" where
  "add_paramedmem_interpkernel my_rank name grp1_global_ranks grp2_global_ranks reg =
     (let c0 = \<lparr>cpl_name = Some name, n_meshes = 0, meshes = [], n_fields = 0, cpl_fields = [],
                send_dec = None, recv_dec = None, send_synced = 0, recv_synced = 0\<rparr>;
          is_in_grp1 = is_in_grp my_rank grp1_global_ranks;
          c = (if is_in_grp1
               then c0\<lparr>send_dec := Some (cs_paramedmem_create_InterpKernelDEC
                                           grp1_global_ranks grp2_global_ranks),
                       recv_dec := Some (cs_paramedmem_create_InterpKernelDEC
                                           grp2_global_ranks grp1_global_ranks)\<rparr>
               else c0\<lparr>recv_dec := Some (cs_paramedmem_create_InterpKernelDEC
                                           grp1_global_ranks grp2_global_ranks),
                       send_dec := Some (cs_paramedmem_create_InterpKernelDEC
                                           grp2_global_ranks grp1_global_ranks)\<rparr>)
      in reg\<lparr>paramed_couplers := paramed_couplers reg @ [c],
             n_paramed_couplers := n_paramed_couplers reg + 1\<rparr>)"

subsection \<open>Public functions: couplings and meshes\<close>

text \<open>
  \<^verbatim>\<open>cs_paramedmem_interpkernel_create\<close>. The returned pointer is the coupling read back from
  the last slot of the array.
\<close>

definition cs_paramedmem_interpkernel_create ::
  "bool \<Rightarrow> int \<Rightarrow> string \<Rightarrow> int list \<Rightarrow> int list \<Rightarrow> registry \<Rightarrow>
   cs_paramedmem_coupling option error + (cs_paramedmem_coupling \<times> registry)" where
  "cs_paramedmem_interpkernel_create have_paramedmem my_rank name
       grp1_global_ranks grp2_global_ranks reg =
     (if \<not> have_paramedmem then Inl (Bft_error no_paramedmem_msg None)
      else
        let reg' = add_paramedmem_interpkernel my_rank name
                     grp1_global_ranks grp2_global_ranks reg in
        case array_get (paramed_couplers reg') (n_paramed_couplers reg' - 1) of
          Inl e \<Rightarrow> Inl e
        | Inr c \<Rightarrow> Inr (c, reg'))"

text \<open>
  \<^verbatim>\<open>cs_paramedmem_destroy\<close>, on the coupling \<^verbatim>\<open>*coupling\<close> points to (\<open>None\<close> when it is
  \<^verbatim>\<open>NULL\<close>). The first loop tests the member \<^verbatim>\<open>pf\<close> of each field before deleting what
  it points to, the second visits \<^verbatim>\<open>meshes[i]\<close>; what they free is not part of the model.
  \<^verbatim>\<open>n_fields\<close> is left as it was.
\<close>

definition cs_paramedmem_destroy ::
  "bool \<Rightarrow> cs_paramedmem_coupling option \<Rightarrow> unit error + cs_paramedmem_coupling option" where
  "cs_paramedmem_destroy have_paramedmem coupling =
     (if \<not> have_paramedmem then Inl (Bft_error no_paramedmem_msg ())
      else case coupling of
        None \<Rightarrow> Inr None
      | Some c \<Rightarrow>
          (case for_loop [0..<nat (n_fields c)]
                  (\<lambda>i u. case array_get (cpl_fields c) (int i) of
                            Inl e \<Rightarrow> Inl e
                          | Inr fld \<Rightarrow>
                              (case fld_pf fld of
                                 Pf_uninit \<Rightarrow> Inl Uninit_read
                               | Pf_obj q \<Rightarrow> Inr u)) () of
             Inl e \<Rightarrow> Inl e
           | Inr u \<Rightarrow>
          (case for_loop [0..<nat (n_meshes c)]
                  (\<lambda>i u. case array_get (meshes c) (int i) of
                            Inl e \<Rightarrow> Inl e | Inr pm \<Rightarrow> Inr u) () of
             Inl e \<Rightarrow> Inl e
           | Inr u \<Rightarrow>
               Inr (Some (c\<lparr>cpl_name := None, cpl_fields := [], n_meshes := 0, meshes := [],
                            send_dec := None, recv_dec := None\<rparr>)))))"

text \<open>\<^verbatim>\<open>cs_paramedmem_define_mesh\<close>; the result is the mesh id and the coupling.\<close>

definition cs_paramedmem_define_mesh ::
  "bool \<Rightarrow> cs_paramedmem_coupling \<Rightarrow> string \<Rightarrow> string \<Rightarrow> int \<Rightarrow> bool \<Rightarrow> bool \<Rightarrow>
   int error + (int \<times> cs_paramedmem_coupling)" where
  "cs_paramedmem_define_mesh have_paramedmem coupling name select_criteria edim
       is_source is_dest =
     (if \<not> have_paramedmem then Inl (Bft_error no_paramedmem_msg (- 1))
      else
        let dir0 = (0::int);
            dir1 = (if is_source then dir0 + 1 else dir0);
            dir2 = (if is_dest then dir1 + 2 else dir1);
            m = \<lparr>sel_criteria = select_criteria, elt_dim = edim, n_elts = 0,
                 elt_list = None, new_to_old = None,
                 med_mesh = \<lparr>um_name = name, um_time_unit = ''s'', um_mesh_dimension = edim,
                             um_number_of_cells = 0, um_number_of_nodes = 0\<rparr>\<rparr>;
            pmmesh = \<lparr>mesh = m, direction = dir2, para_mesh0 = None, para_mesh1 = None\<rparr>;
            id = n_meshes coupling
        in Inr (id, coupling\<lparr>n_meshes := n_meshes coupling + 1,
                             meshes := meshes coupling @ [pmmesh]\<rparr>))"

text \<open>\<^verbatim>\<open>cs_paramedmem_init_meshes\<close>.\<close>

definition cs_paramedmem_init_meshes ::
  "bool \<Rightarrow> (cs_medcoupling_mesh \<Rightarrow> cs_medcoupling_mesh) \<Rightarrow> cs_paramedmem_coupling \<Rightarrow>
   unit error + cs_paramedmem_coupling" where
  "cs_paramedmem_init_meshes have_paramedmem copy_from_base coupling =
     (if \<not> have_paramedmem then Inl (Bft_error no_paramedmem_msg ())
      else
        case for_loop [0..<nat (n_meshes coupling)]
               (\<lambda>i ms. case array_get ms (int i) of
                          Inl e \<Rightarrow> Inl e
                        | Inr pm \<Rightarrow>
                            (case init_mesh_coupling copy_from_base coupling pm of
                               Inl e \<Rightarrow> Inl e
                             | Inr pm' \<Rightarrow> array_set ms (int i) pm'))
               (meshes coupling) of
          Inl e \<Rightarrow> Inl e
        | Inr ms \<Rightarrow> Inr (coupling\<lparr>meshes := ms\<rparr>))"

text \<open>
  \<^verbatim>\<open>cs_paramedmem_mesh_id\<close>: the first mesh of that name, or \<open>-1\<close>. The loop keeps the
  pointer \<^verbatim>\<open>getName().c_str()\<close> in a variable and compares through it in the next
  statement. \<^verbatim>\<open>getName\<close> is declared by the library: \<open>name_by_value\<close> tells whether it
  returns the string by value; then the string is gone when the comparison reads it.
\<close>

fun mesh_id_loop ::
  "bool \<Rightarrow> nat list \<Rightarrow> paramedmem_mesh list \<Rightarrow> string \<Rightarrow> 'r error + int" where
  "mesh_id_loop name_by_value [] ms mesh_name = Inr (- 1)"
| "mesh_id_loop name_by_value (i # is) ms mesh_name =
     (case array_get ms (int i) of
        Inl e \<Rightarrow> Inl e
      | Inr pm \<Rightarrow>
          if name_by_value then Inl Dangling_read
          else if mesh_name = um_name (med_mesh (mesh pm)) then Inr (int i)
          else mesh_id_loop name_by_value is ms mesh_name)"

definition cs_paramedmem_mesh_id ::
  "bool \<Rightarrow> bool \<Rightarrow> cs_paramedmem_coupling \<Rightarrow> string \<Rightarrow> int error + int" where
  "cs_paramedmem_mesh_id have_paramedmem name_by_value coupling mesh_name =
     (if \<not> have_paramedmem then Inl (Bft_error no_paramedmem_msg (- 1))
      else mesh_id_loop name_by_value [0..<nat (n_meshes coupling)] (meshes coupling)
             mesh_name)"

text \<open>\<^verbatim>\<open>cs_paramedmem_mesh_get_n_elts\<close> and \<^verbatim>\<open>cs_paramedmem_mesh_get_elt_list\<close>.\<close>

definition cs_paramedmem_mesh_get_n_elts ::
  "bool \<Rightarrow> cs_paramedmem_coupling \<Rightarrow> int \<Rightarrow> int error + int" where
  "cs_paramedmem_mesh_get_n_elts have_paramedmem coupling mesh_id =
     (if \<not> have_paramedmem then Inl (Bft_error no_paramedmem_msg 0)
      else if mesh_id \<ge> 0
        then (case array_get (meshes coupling) mesh_id of
                Inl e \<Rightarrow> Inl e | Inr pm \<Rightarrow> Inr (n_elts (mesh pm)))
        else Inr 0)"

definition cs_paramedmem_mesh_get_elt_list ::
  "bool \<Rightarrow> cs_paramedmem_coupling \<Rightarrow> int \<Rightarrow> int list option error + int list option" where
  "cs_paramedmem_mesh_get_elt_list have_paramedmem coupling mesh_id =
     (if \<not> have_paramedmem then Inl (Bft_error no_paramedmem_msg None)
      else if mesh_id \<ge> 0
        then (case array_get (meshes coupling) mesh_id of
                Inl e \<Rightarrow> Inl e | Inr pm \<Rightarrow> Inr (elt_list (mesh pm)))
        else Inr None)"

subsection \<open>Public functions: fields\<close>

text \<open>\<^verbatim>\<open>MEDCouplingFieldDouble::New(type, td)\<close>, and the field a new \<^verbatim>\<open>ParaFIELD\<close> holds.\<close>

definition new_field_double :: "TypeOfField \<Rightarrow> TypeOfTimeDiscretization \<Rightarrow> MEDCouplingFieldDouble" where
  "new_field_double type tdisc =
     \<lparr>fd_type = type, fd_td = tdisc, fd_nature = NoNature, fd_name = [], fd_array = [],
      fd_time_label = 0\<rparr>"

text \<open>
  \<^verbatim>\<open>DataArrayDouble::alloc(n_locs, dim)\<close>: \<open>n_locs * dim\<close> values, whose contents are not
  set; they are zeros here.
\<close>

definition alloc :: "int \<Rightarrow> int \<Rightarrow> double list" where
  "alloc n_locs d = replicate (nat (n_locs * d)) 0"

text \<open>
  \<^verbatim>\<open>cs_paramedmem_field_add\<close>; the result is the field id and the coupling. The three-way
  branch gives the mesh structure, the \<^verbatim>\<open>pf\<close> member of the new field and the two
  channels as the branch leaves them.
\<close>

definition cs_paramedmem_field_add ::
  "bool \<Rightarrow> cs_paramedmem_coupling \<Rightarrow> string \<Rightarrow> int \<Rightarrow> int \<Rightarrow> int \<Rightarrow> int \<Rightarrow> int \<Rightarrow>
   int error + (int \<times> cs_paramedmem_coupling)" where
  "cs_paramedmem_field_add have_paramedmem coupling name mesh_id d
       medcpl_field_type medcpl_time_discr dirflag =
     (if \<not> have_paramedmem then Inl (Bft_error no_paramedmem_msg (- 1))
      else
        case array_get (meshes coupling) mesh_id of
          Inl e \<Rightarrow> Inl e
        | Inr pmesh \<Rightarrow>
            let type = (if medcpl_field_type = cs_medcpl_cell_field then ON_CELLS
                        else if medcpl_field_type = cs_medcpl_vertex_field then ON_NODES
                        else ON_CELLS);
                tdisc = (if medcpl_time_discr = cs_medcpl_no_time then NO_TIME
                         else if medcpl_time_discr = cs_medcpl_one_time then ONE_TIME
                         else if medcpl_time_discr = cs_medcpl_linear_time then LINEAR_TIME
                         else NO_TIME);
                f_id = n_fields coupling;
                branch =
                  (if dirflag = 1 \<and> send_dec coupling \<noteq> None then
                     let dec = the (send_dec coupling);
                         pm = (case para_mesh0 pmesh of
                                 None \<Rightarrow> \<lparr>pm_group = source_grp dec, pm_name = ''source mesh''\<rparr>
                               | Some q \<Rightarrow> q);
                         p = Pf_obj \<lparr>pf_type = type, pf_td = tdisc, pf_para_mesh = pm,
                                     pf_n_components = d\<rparr>
                     in (pmesh\<lparr>para_mesh0 := Some pm\<rparr>, p,
                         Some (dec_invoke dec (AttachLocalField p)), recv_dec coupling)
                   else if dirflag = 2 \<and> recv_dec coupling \<noteq> None then
                     let dec = the (recv_dec coupling);
                         pm = (case para_mesh1 pmesh of
                                 None \<Rightarrow> \<lparr>pm_group = target_grp dec, pm_name = ''target mesh''\<rparr>
                               | Some q \<Rightarrow> q);
                         p = Pf_obj \<lparr>pf_type = type, pf_td = tdisc, pf_para_mesh = pm,
                                     pf_n_components = d\<rparr>
                     in (pmesh\<lparr>para_mesh1 := Some pm\<rparr>, p,
                         send_dec coupling, Some (dec_invoke dec (AttachLocalField p)))
                   else (pmesh, Pf_uninit, send_dec coupling, recv_dec coupling));
                pmesh' = fst branch;
                p = fst (snd branch);
                n_locs = (case type of
                            ON_NODES \<Rightarrow> um_number_of_nodes (med_mesh (mesh pmesh))
                          | ON_CELLS \<Rightarrow> um_number_of_cells (med_mesh (mesh pmesh)));
                f = (new_field_double type tdisc)
                      \<lparr>fd_nature := IntensiveConservation, fd_name := name,
                       fd_array := alloc n_locs d\<rparr>;
                fld = \<lparr>fld_mesh_id = mesh_id, fld_dim = d, fld_td = tdisc, fld_f = f, fld_pf = p\<rparr>
            in Inr (f_id,
                    coupling\<lparr>meshes := (meshes coupling)[nat mesh_id := pmesh'],
                             cpl_fields := cpl_fields coupling @ [fld],
                             send_dec := fst (snd (snd branch)),
                             recv_dec := snd (snd (snd branch)),
                             n_fields := n_fields coupling + 1\<rparr>))"

text \<open>
  \<^verbatim>\<open>cs_paramedmem_field_get_id\<close>: the first field of that mesh and name, or \<open>-1\<close>. Here
  the name is compared inside the expression that gets it.
\<close>

fun field_get_id_loop ::
  "nat list \<Rightarrow> paramedmem_field list \<Rightarrow> int \<Rightarrow> string \<Rightarrow> 'r error + int" where
  "field_get_id_loop [] fs mesh_id name = Inr (- 1)"
| "field_get_id_loop (i # is) fs mesh_id name =
     (case array_get fs (int i) of
        Inl e \<Rightarrow> Inl e
      | Inr fld \<Rightarrow>
          if fld_mesh_id fld = mesh_id \<and> name = fd_name (fld_f fld) then Inr (int i)
          else field_get_id_loop is fs mesh_id name)"

definition cs_paramedmem_field_get_id ::
  "bool \<Rightarrow> cs_paramedmem_coupling \<Rightarrow> int \<Rightarrow> string \<Rightarrow> int error + int" where
  "cs_paramedmem_field_get_id have_paramedmem coupling mesh_id name =
     (if \<not> have_paramedmem then Inl (Bft_error no_paramedmem_msg (- 1))
      else field_get_id_loop [0..<nat (n_fields coupling)] (cpl_fields coupling) mesh_id name)"

subsection \<open>Public functions: export and import of values\<close>

text \<open>
  The two copy loops of \<^verbatim>\<open>cs_paramedmem_field_export\<close>, on the field's array \<open>val_ptr\<close>:
  the contiguous one (\<open>on_parent\<close> false) and the one gathering through \<^verbatim>\<open>elt_list\<close>,
  whose inner loop over the components of element \<open>i\<close> is \<open>export_on_parent_row\<close>.
\<close>

definition export_compact ::
  "int \<Rightarrow> int \<Rightarrow> double list \<Rightarrow> double list \<Rightarrow> unit error + double list" where
  "export_compact d n field_values val_ptr =
     for_loop [0..<nat (int32 (d * n))]
       (\<lambda>i val. case array_get field_values (int i) of
                   Inl e \<Rightarrow> Inl e
                 | Inr v \<Rightarrow> array_set val (int i) v)
       val_ptr"

definition export_on_parent_row ::
  "int \<Rightarrow> int list option \<Rightarrow> double list \<Rightarrow> nat \<Rightarrow> double list \<Rightarrow>
   unit error + double list" where
  "export_on_parent_row d elts field_values i =
     for_loop [0..<nat d]
       (\<lambda>j val. case deref elts of
                   Inl e \<Rightarrow> Inl e
                 | Inr el \<Rightarrow>
                (case array_get el (int i) of
                   Inl e \<Rightarrow> Inl e
                 | Inr c_id \<Rightarrow>
                (case array_get field_values (int32 (int32 (c_id * d) + int j)) of
                   Inl e \<Rightarrow> Inl e
                 | Inr v \<Rightarrow> array_set val (int32 (int32 (int i * d) + int j)) v)))"

definition export_on_parent ::
  "int \<Rightarrow> int \<Rightarrow> int list option \<Rightarrow> double list \<Rightarrow> double list \<Rightarrow>
   unit error + double list" where
  "export_on_parent d n elts field_values val_ptr =
     for_loop [0..<nat n] (export_on_parent_row d elts field_values) val_ptr"

text \<open>\<^verbatim>\<open>cs_paramedmem_field_export\<close>; the result is the coupling, whose field holds the values.\<close>

definition cs_paramedmem_field_export ::
  "bool \<Rightarrow> cs_paramedmem_coupling \<Rightarrow> int \<Rightarrow> bool \<Rightarrow> double list \<Rightarrow>
   unit error + cs_paramedmem_coupling" where
  "cs_paramedmem_field_export have_paramedmem coupling field_id on_parent field_values =
     (if \<not> have_paramedmem then Inl (Bft_error no_paramedmem_msg ())
      else
        case array_get (cpl_fields coupling) field_id of
          Inl e \<Rightarrow> Inl e
        | Inr fld \<Rightarrow>
       (case array_get (meshes coupling) (fld_mesh_id fld) of
          Inl e \<Rightarrow> Inl e
        | Inr pmesh \<Rightarrow>
       (case (if \<not> on_parent
              then export_compact (fld_dim fld) (n_elts (mesh pmesh)) field_values
                     (fd_array (fld_f fld))
              else export_on_parent (fld_dim fld) (n_elts (mesh pmesh)) (elt_list (mesh pmesh))
                     field_values (fd_array (fld_f fld))) of
          Inl e \<Rightarrow> Inl e
        | Inr val \<Rightarrow>
            Inr (coupling\<lparr>cpl_fields := (cpl_fields coupling)
                   [nat field_id := fld\<lparr>fld_f := (fld_f fld)
                       \<lparr>fd_array := val,
                        fd_time_label := Suc (fd_time_label (fld_f fld))\<rparr>\<rparr>]\<rparr>))))"

text \<open>
  The two copy loops of \<^verbatim>\<open>cs_paramedmem_field_import\<close>, on the caller's array
  \<open>field_values\<close>: the one scattering through \<^verbatim>\<open>new_to_old\<close> (\<open>on_parent\<close> false) and the
  one scattering through \<^verbatim>\<open>elt_list\<close>, each with its inner loop over the components of
  element \<open>i\<close>.
\<close>

definition import_new_to_old_row ::
  "int \<Rightarrow> int list option \<Rightarrow> double list \<Rightarrow> nat \<Rightarrow> double list \<Rightarrow>
   unit error + double list" where
  "import_new_to_old_row d n2o val_ptr i =
     for_loop [0..<nat d]
       (\<lambda>j fv. case deref n2o of
                  Inl e \<Rightarrow> Inl e
                | Inr n2ol \<Rightarrow>
               (case array_get n2ol (int i) of
                  Inl e \<Rightarrow> Inl e
                | Inr c_id \<Rightarrow>
               (case array_get val_ptr (int32 (int32 (int i * d) + int j)) of
                  Inl e \<Rightarrow> Inl e
                | Inr v \<Rightarrow> array_set fv (int32 (int32 (d * c_id) + int j)) v)))"

definition import_new_to_old ::
  "int \<Rightarrow> int \<Rightarrow> int list option \<Rightarrow> double list \<Rightarrow> double list \<Rightarrow>
   unit error + double list" where
  "import_new_to_old d n n2o val_ptr field_values =
     for_loop [0..<nat n] (import_new_to_old_row d n2o val_ptr) field_values"

definition import_on_parent_row ::
  "int \<Rightarrow> int list option \<Rightarrow> double list \<Rightarrow> nat \<Rightarrow> double list \<Rightarrow>
   unit error + double list" where
  "import_on_parent_row d elts val_ptr i =
     for_loop [0..<nat d]
       (\<lambda>j fv. case deref elts of
                  Inl e \<Rightarrow> Inl e
                | Inr el \<Rightarrow>
               (case array_get el (int i) of
                  Inl e \<Rightarrow> Inl e
                | Inr c_id \<Rightarrow>
               (case array_get val_ptr (int32 (int32 (int i * d) + int j)) of
                  Inl e \<Rightarrow> Inl e
                | Inr v \<Rightarrow> array_set fv (int32 (int32 (c_id * d) + int j)) v)))"

definition import_on_parent ::
  "int \<Rightarrow> int \<Rightarrow> int list option \<Rightarrow> double list \<Rightarrow> double list \<Rightarrow>
   unit error + double list" where
  "import_on_parent d n elts val_ptr field_values =
     for_loop [0..<nat n] (import_on_parent_row d elts val_ptr) field_values"

text \<open>\<^verbatim>\<open>cs_paramedmem_field_import\<close>; the result is the caller's array \<open>field_values\<close>.\<close>

definition cs_paramedmem_field_import ::
  "bool \<Rightarrow> cs_paramedmem_coupling \<Rightarrow> int \<Rightarrow> bool \<Rightarrow> double list \<Rightarrow>
   unit error + double list" where
  "cs_paramedmem_field_import have_paramedmem coupling field_id on_parent field_values =
     (if \<not> have_paramedmem then Inl (Bft_error no_paramedmem_msg ())
      else
        case array_get (cpl_fields coupling) field_id of
          Inl e \<Rightarrow> Inl e
        | Inr fld \<Rightarrow>
       (case array_get (meshes coupling) (fld_mesh_id fld) of
          Inl e \<Rightarrow> Inl e
        | Inr pmesh \<Rightarrow>
            if \<not> on_parent
            then import_new_to_old (fld_dim fld) (n_elts (mesh pmesh)) (new_to_old (mesh pmesh))
                   (fd_array (fld_f fld)) field_values
            else import_on_parent (fld_dim fld) (n_elts (mesh pmesh)) (elt_list (mesh pmesh))
                   (fd_array (fld_f fld)) field_values))"

subsection \<open>Public functions: synchronisation and transfer\<close>

text \<open>\<^verbatim>\<open>cs_paramedmem_sync_dec\<close>: \<open>dec_to_sync\<close> is 1 for the send channel, anything else for
  the receive channel.\<close>

definition cs_paramedmem_sync_dec ::
  "bool \<Rightarrow> cs_paramedmem_coupling \<Rightarrow> int \<Rightarrow> unit error + cs_paramedmem_coupling" where
  "cs_paramedmem_sync_dec have_paramedmem coupling dec_to_sync =
     (if \<not> have_paramedmem then Inl (Bft_error no_paramedmem_msg ())
      else if dec_to_sync = 1 then
        (if send_synced coupling = 0 then
           (case deref (send_dec coupling) of
              Inl e \<Rightarrow> Inl e
            | Inr dec \<Rightarrow> Inr (coupling\<lparr>send_dec := Some (dec_invoke dec Synchronize),
                                       send_synced := 1\<rparr>))
         else Inr coupling)
      else if recv_synced coupling = 0 then
        (case deref (recv_dec coupling) of
           Inl e \<Rightarrow> Inl e
         | Inr dec \<Rightarrow> Inr (coupling\<lparr>recv_dec := Some (dec_invoke dec Synchronize),
                                    recv_synced := 1\<rparr>))
      else Inr coupling)"

text \<open>\<^verbatim>\<open>cs_paramedmem_send_data\<close> and \<^verbatim>\<open>cs_paramedmem_recv_data\<close>.\<close>

definition cs_paramedmem_send_data ::
  "bool \<Rightarrow> cs_paramedmem_coupling \<Rightarrow> unit error + cs_paramedmem_coupling" where
  "cs_paramedmem_send_data have_paramedmem coupling =
     (if \<not> have_paramedmem then Inl (Bft_error no_paramedmem_msg ())
      else case deref (send_dec coupling) of
             Inl e \<Rightarrow> Inl e
           | Inr dec \<Rightarrow> Inr (coupling\<lparr>send_dec := Some (dec_invoke dec SendData)\<rparr>))"

definition cs_paramedmem_recv_data ::
  "bool \<Rightarrow> cs_paramedmem_coupling \<Rightarrow> unit error + cs_paramedmem_coupling" where
  "cs_paramedmem_recv_data have_paramedmem coupling =
     (if \<not> have_paramedmem then Inl (Bft_error no_paramedmem_msg ())
      else case deref (recv_dec coupling) of
             Inl e \<Rightarrow> Inl e
           | Inr dec \<Rightarrow> Inr (coupling\<lparr>recv_dec := Some (dec_invoke dec RecvData)\<rparr>))"

text \<open>\<^verbatim>\<open>cs_paramedmem_reattach_field\<close>.\<close>

definition cs_paramedmem_reattach_field ::
  "bool \<Rightarrow> cs_paramedmem_coupling \<Rightarrow> int \<Rightarrow> unit error + cs_paramedmem_coupling" where
  "cs_paramedmem_reattach_field have_paramedmem coupling field_id =
     (if \<not> have_paramedmem then Inl (Bft_error no_paramedmem_msg ())
      else
        case array_get (cpl_fields coupling) field_id of
          Inl e \<Rightarrow> Inl e
        | Inr fld \<Rightarrow>
       (case array_get (meshes coupling) (fld_mesh_id fld) of
          Inl e \<Rightarrow> Inl e
        | Inr pmesh \<Rightarrow>
            if direction pmesh = 1 then
              (case deref (send_dec coupling) of
                 Inl e \<Rightarrow> Inl e
               | Inr dec \<Rightarrow>
                   Inr (coupling\<lparr>send_dec :=
                          Some (dec_invoke dec (AttachLocalField (fld_pf fld)))\<rparr>))
            else if direction pmesh = 2 then
              (case deref (recv_dec coupling) of
                 Inl e \<Rightarrow> Inl e
               | Inr dec \<Rightarrow>
                   Inr (coupling\<lparr>recv_dec :=
                          Some (dec_invoke dec (AttachLocalField (fld_pf fld)))\<rparr>))
            else Inr coupling))"

text \<open>
  \<^verbatim>\<open>cs_paramedmem_get_mpi_comm_world_ranks\<close>; \<open>world_ranks\<close> is what \<^verbatim>\<open>MPI_Allgather\<close>
  collects over the local communicator. The result is the returned pointer.
\<close>

definition cs_paramedmem_get_mpi_comm_world_ranks ::
  "bool \<Rightarrow> int list \<Rightarrow> int list option error + int list option" where
  "cs_paramedmem_get_mpi_comm_world_ranks have_paramedmem world_ranks =
     (if \<not> have_paramedmem then Inr None else Inr (Some world_ranks))"


text \<open>The number of \<^verbatim>\<open>synchronize()\<close> calls a channel has received.\<close>

definition n_synchronize :: "InterpKernelDEC option \<Rightarrow> nat" where
  "n_synchronize p = (case p of None \<Rightarrow> 0 | Some dec \<Rightarrow> count_list (dec_calls dec) Synchronize)"

subsection \<open>Vocabulary of the statements\<close>



text \<open>The field and the mesh an id denotes, when the id is an index of the array.\<close>

definition field_of :: "cs_paramedmem_coupling \<Rightarrow> int \<Rightarrow> paramedmem_field option" where
  "field_of c field_id =
     (if 0 \<le> field_id \<and> field_id < int (length (cpl_fields c))
      then Some (cpl_fields c ! nat field_id) else None)"

definition mesh_of :: "cs_paramedmem_coupling \<Rightarrow> int \<Rightarrow> paramedmem_mesh option" where
  "mesh_of c mesh_id =
     (if 0 \<le> mesh_id \<and> mesh_id < int (length (meshes c))
      then Some (meshes c ! nat mesh_id) else None)"

text \<open>The globals as the file initialises them.\<close>

definition initial_registry :: registry where
  "initial_registry = \<lparr>n_paramed_couplers = 0, paramed_couplers = []\<rparr>"

text \<open>
  A coupling named \<open>''cpl''\<close> between the groups \<open>{0}\<close> and \<open>{1}\<close>, as rank 0 holds it after
  its creation.
\<close>

definition cpl01 :: cs_paramedmem_coupling where
  "cpl01 = \<lparr>cpl_name = Some ''cpl'', n_meshes = 0, meshes = [], n_fields = 0, cpl_fields = [],
            send_dec = Some \<lparr>source_grp = {0}, target_grp = {1}, dec_calls = []\<rparr>,
            recv_dec = Some \<lparr>source_grp = {1}, target_grp = {0}, dec_calls = []\<rparr>,
            send_synced = 0, recv_synced = 0\<rparr>"

text \<open>
  The same coupling with one mesh registered in both directions, of which the elements 2
  and 0 of the parent mesh are selected, and one field of two components on its cells,
  added with a direction flag that is neither 1 nor 2.
\<close>

definition sel_mesh :: paramedmem_mesh where
  "sel_mesh =
     \<lparr>mesh = \<lparr>sel_criteria = ''inlet'', elt_dim = 2, n_elts = 2, elt_list = Some [2, 0],
               new_to_old = Some [0, 1],
               med_mesh = \<lparr>um_name = ''m'', um_time_unit = ''s'', um_mesh_dimension = 2,
                           um_number_of_cells = 2, um_number_of_nodes = 4\<rparr>\<rparr>,
      direction = 3,
      para_mesh0 = Some \<lparr>pm_group = {0}, pm_name = ''source mesh''\<rparr>,
      para_mesh1 = Some \<lparr>pm_group = {0}, pm_name = ''target mesh''\<rparr>\<rparr>"

definition sel_field :: paramedmem_field where
  "sel_field =
     \<lparr>fld_mesh_id = 0, fld_dim = 2, fld_td = NO_TIME,
      fld_f = \<lparr>fd_type = ON_CELLS, fd_td = NO_TIME, fd_nature = IntensiveConservation,
                fd_name = ''t'', fd_array = [0, 0, 0, 0], fd_time_label = 0\<rparr>,
      fld_pf = Pf_uninit\<rparr>"

definition cpl_sel :: cs_paramedmem_coupling where
  "cpl_sel = cpl01\<lparr>n_meshes := 1, meshes := [sel_mesh], n_fields := 1,
                   cpl_fields := [sel_field]\<rparr>"

text \<open>
  The coupling \<open>cpl01\<close> after a mesh of faces was defined on it as a source only, and the
  field a call of \<^verbatim>\<open>cs_paramedmem_field_add\<close> with direction flag 3 then adds on that mesh.
\<close>

definition src_mesh :: paramedmem_mesh where
  "src_mesh =
     \<lparr>mesh = \<lparr>sel_criteria = ''all[]'', elt_dim = 2, n_elts = 0, elt_list = None,
               new_to_old = None,
               med_mesh = \<lparr>um_name = ''m'', um_time_unit = ''s'', um_mesh_dimension = 2,
                           um_number_of_cells = 0, um_number_of_nodes = 0\<rparr>\<rparr>,
      direction = 1, para_mesh0 = None, para_mesh1 = None\<rparr>"

definition cpl_src :: cs_paramedmem_coupling where
  "cpl_src = cpl01\<lparr>n_meshes := 1, meshes := [src_mesh]\<rparr>"

definition loose_field :: paramedmem_field where
  "loose_field =
     \<lparr>fld_mesh_id = 0, fld_dim = 1, fld_td = NO_TIME,
      fld_f = \<lparr>fd_type = ON_CELLS, fd_td = NO_TIME, fd_nature = IntensiveConservation,
                fd_name = ''u'', fd_array = [], fd_time_label = 0\<rparr>,
      fld_pf = Pf_uninit\<rparr>"

text \<open>
  The surface of an octahedron, eight faces on six vertices, as an effect of
  \<^verbatim>\<open>cs_medcoupling_mesh_copy_from_base\<close>; the mesh \<open>src_mesh\<close> once initialised with it; and
  the field of one component a call of \<^verbatim>\<open>cs_paramedmem_field_add\<close> for the send direction
  then puts on its vertices.
\<close>

definition copy_oct :: "cs_medcoupling_mesh \<Rightarrow> cs_medcoupling_mesh" where
  "copy_oct m =
     m\<lparr>n_elts := 8, elt_list := Some [0, 1, 2, 3, 4, 5, 6, 7],
       new_to_old := Some [0, 1, 2, 3, 4, 5, 6, 7],
       med_mesh := (med_mesh m)\<lparr>um_number_of_cells := 8, um_number_of_nodes := 6\<rparr>\<rparr>"

definition oct_mesh :: paramedmem_mesh where
  "oct_mesh =
     src_mesh\<lparr>mesh := copy_oct (mesh src_mesh),
              para_mesh0 := Some \<lparr>pm_group = {0}, pm_name = ''source mesh''\<rparr>,
              para_mesh1 := Some \<lparr>pm_group = {0}, pm_name = ''target mesh''\<rparr>\<rparr>"

definition oct_pf :: ParaFIELD where
  "oct_pf = \<lparr>pf_type = ON_NODES, pf_td = NO_TIME,
             pf_para_mesh = \<lparr>pm_group = {0}, pm_name = ''source mesh''\<rparr>,
             pf_n_components = 1\<rparr>"

definition oct_field :: paramedmem_field where
  "oct_field =
     \<lparr>fld_mesh_id = 0, fld_dim = 1, fld_td = NO_TIME,
      fld_f = \<lparr>fd_type = ON_NODES, fd_td = NO_TIME, fd_nature = IntensiveConservation,
                fd_name = ''u'', fd_array = [0, 0, 0, 0, 0, 0], fd_time_label = 0\<rparr>,
      fld_pf = Pf_obj oct_pf\<rparr>"

definition cpl_oct :: cs_paramedmem_coupling where
  "cpl_oct =
     cpl01\<lparr>n_meshes := 1, meshes := [oct_mesh], n_fields := 1, cpl_fields := [oct_field],
           send_dec := Some \<lparr>source_grp = {0}, target_grp = {1},
                             dec_calls = [AttachLocalField (Pf_obj oct_pf)]\<rparr>\<rparr>"

text \<open>
  A coupling whose mesh selects the single element \<open>2 ^ 30\<close> of its parent mesh, with a cell
  field of four components, and that coupling once the field holds four fives.
\<close>

definition big_mesh :: paramedmem_mesh where
  "big_mesh =
     \<lparr>mesh = \<lparr>sel_criteria = ''probe'', elt_dim = 3, n_elts = 1,
               elt_list = Some [1073741824], new_to_old = Some [0],
               med_mesh = \<lparr>um_name = ''m'', um_time_unit = ''s'', um_mesh_dimension = 3,
                           um_number_of_cells = 1, um_number_of_nodes = 4\<rparr>\<rparr>,
      direction = 3,
      para_mesh0 = Some \<lparr>pm_group = {0}, pm_name = ''source mesh''\<rparr>,
      para_mesh1 = Some \<lparr>pm_group = {0}, pm_name = ''target mesh''\<rparr>\<rparr>"

definition big_field :: "double list \<Rightarrow> nat \<Rightarrow> paramedmem_field" where
  "big_field vals label =
     \<lparr>fld_mesh_id = 0, fld_dim = 4, fld_td = NO_TIME,
      fld_f = \<lparr>fd_type = ON_CELLS, fd_td = NO_TIME, fd_nature = IntensiveConservation,
                fd_name = ''t'', fd_array = vals, fd_time_label = label\<rparr>,
      fld_pf = Pf_uninit\<rparr>"

definition cpl_big :: "double list \<Rightarrow> nat \<Rightarrow> cs_paramedmem_coupling" where
  "cpl_big vals label =
     cpl01\<lparr>n_meshes := 1, meshes := [big_mesh], n_fields := 1,
           cpl_fields := [big_field vals label]\<rparr>"

section \<open>Properties\<close>

subsection \<open>Auxiliary facts\<close>


lemma is_in_grp_set: "is_in_grp r rs = (r \<in> set rs)"
  by (induction rs) auto

lemma array_get_field_of:
  "field_of c i = Some fld \<Longrightarrow> array_get (cpl_fields c) i = Inr fld"
  by (simp add: field_of_def array_get_def split: if_splits)

lemma array_get_mesh_of:
  "mesh_of c i = Some pm \<Longrightarrow> array_get (meshes c) i = Inr pm"
  by (simp add: mesh_of_def array_get_def split: if_splits)

subsection \<open>Synchronisation\<close>



subsection \<open>Sending\<close>

text \<open>
  On \<open>cpl01\<close>, whose send channel has never been synchronised, \<^verbatim>\<open>cs_paramedmem_send_data\<close>
  returns normally after calling \<^verbatim>\<open>sendData()\<close> on the channel.
\<close>

theorem send_data_unsynced_counterexample:
  "send_synced cpl01 = 0
   \<and> n_synchronize (send_dec cpl01) = 0
   \<and> cs_paramedmem_send_data True cpl01
       = Inr (cpl01\<lparr>send_dec := Some \<lparr>source_grp = {0}, target_grp = {1},
                                      dec_calls = [SendData]\<rparr>\<rparr>)"
  by (simp add: cs_paramedmem_send_data_def cpl01_def deref_def dec_invoke_def n_synchronize_def)

text \<open>
  Claim C2, amended. \<^verbatim>\<open>cs_paramedmem_send_data\<close> does not look at \<^verbatim>\<open>send_synced\<close>: on
  every coupling with a send channel it calls \<^verbatim>\<open>sendData()\<close> on that channel and returns,
  also when the flag is clear, and it leaves the flags as they are; the only failure is a
  null send channel.
\<close>

theorem send_data_ignores_synced:
  "cs_paramedmem_send_data True c
     = (case send_dec c of
          None \<Rightarrow> Inl Null_deref
        | Some dec \<Rightarrow> Inr (c\<lparr>send_dec := Some (dec_invoke dec SendData)\<rparr>))
   \<and> cs_paramedmem_send_data True (c\<lparr>send_synced := 0\<rparr>)
     = (case send_dec c of
          None \<Rightarrow> Inl Null_deref
        | Some dec \<Rightarrow> Inr (c\<lparr>send_dec := Some (dec_invoke dec SendData), send_synced := 0\<rparr>))"
  by (simp add: cs_paramedmem_send_data_def deref_def split: option.splits)

subsection \<open>Creation of a coupling\<close>

text \<open>
  Rank 5 belongs to neither \<open>{0}\<close> nor \<open>{1}\<close>, and rank 0 belongs to both \<open>{0}\<close> and
  \<open>{0, 1}\<close>: a coupling is created in both cases.
\<close>

theorem create_rank_membership_counterexample:
  "\<not> is_in_grp 5 [0] \<and> \<not> is_in_grp 5 [1]
   \<and> cs_paramedmem_interpkernel_create True 5 ''cpl'' [0] [1] initial_registry
       = Inr (cpl01\<lparr>send_dec := recv_dec cpl01, recv_dec := send_dec cpl01\<rparr>,
              \<lparr>n_paramed_couplers = 1,
               paramed_couplers =
                 [cpl01\<lparr>send_dec := recv_dec cpl01, recv_dec := send_dec cpl01\<rparr>]\<rparr>)
   \<and> is_in_grp 0 [0] \<and> is_in_grp 0 [0, 1]
   \<and> cs_paramedmem_interpkernel_create True 0 ''cpl'' [0] [0, 1] initial_registry
       = Inr (cpl01\<lparr>send_dec := Some \<lparr>source_grp = {0}, target_grp = {0, 1}, dec_calls = []\<rparr>,
                    recv_dec := Some \<lparr>source_grp = {0, 1}, target_grp = {0}, dec_calls = []\<rparr>\<rparr>,
              \<lparr>n_paramed_couplers = 1,
               paramed_couplers =
                 [cpl01\<lparr>send_dec := Some \<lparr>source_grp = {0}, target_grp = {0, 1},
                                          dec_calls = []\<rparr>,
                        recv_dec := Some \<lparr>source_grp = {0, 1}, target_grp = {0},
                                          dec_calls = []\<rparr>\<rparr>]\<rparr>)"
  by (simp add: cs_paramedmem_interpkernel_create_def add_paramedmem_interpkernel_def
      initial_registry_def cpl01_def array_get_def cs_paramedmem_create_InterpKernelDEC_def)

text \<open>
  Claim C3, amended. \<^verbatim>\<open>cs_paramedmem_interpkernel_create\<close> makes no check of the rank
  against the two groups and never fails on it: whatever the rank and the two rank lists
  (the rank in neither, in one or in both), on a registry whose count is the size of its
  array it appends a new coupling with no mesh, no field and both flags clear, and returns
  it. The rank counts as a member of group 1 exactly when it occurs in the first list, and
  as a member of group 2 otherwise.
\<close>

theorem create_never_rejects:
  assumes "n_paramed_couplers reg = int (length (paramed_couplers reg))"
  shows "\<exists>c. cs_paramedmem_interpkernel_create True my_rank name grp1 grp2 reg
              = Inr (c, reg\<lparr>paramed_couplers := paramed_couplers reg @ [c],
                            n_paramed_couplers := n_paramed_couplers reg + 1\<rparr>)
           \<and> cpl_name c = Some name \<and> n_meshes c = 0 \<and> meshes c = []
           \<and> n_fields c = 0 \<and> cpl_fields c = []
           \<and> send_synced c = 0 \<and> recv_synced c = 0
           \<and> send_dec c = Some (if my_rank \<in> set grp1
                                 then cs_paramedmem_create_InterpKernelDEC grp1 grp2
                                 else cs_paramedmem_create_InterpKernelDEC grp2 grp1)
           \<and> recv_dec c = Some (if my_rank \<in> set grp1
                                 then cs_paramedmem_create_InterpKernelDEC grp2 grp1
                                 else cs_paramedmem_create_InterpKernelDEC grp1 grp2)"
  using assms
  by (simp add: cs_paramedmem_interpkernel_create_def add_paramedmem_interpkernel_def
      Let_def array_get_def is_in_grp_set)

text \<open>On the initial registry, rank 5 gets a coupling that sends from \<open>{1}\<close> to \<open>{0}\<close>.\<close>

theorem create_never_rejects_witness:
  "n_paramed_couplers initial_registry = int (length (paramed_couplers initial_registry))
   \<and> (\<exists>c. cs_paramedmem_interpkernel_create True 5 ''cpl'' [0] [1] initial_registry
             = Inr (c, \<lparr>n_paramed_couplers = 1, paramed_couplers = [c]\<rparr>)
          \<and> send_dec c = Some \<lparr>source_grp = {1}, target_grp = {0}, dec_calls = []\<rparr>)"
proof -
  have wf: "n_paramed_couplers initial_registry = int (length (paramed_couplers initial_registry))"
    by (simp add: initial_registry_def)
  show ?thesis
    using wf create_never_rejects [OF wf, of 5 "''cpl''" "[0]" "[1]"]
    by (simp add: initial_registry_def cs_paramedmem_create_InterpKernelDEC_def) blast
qed

text \<open>
  Rank 0 is in the second list \<open>[0, 1]\<close>, yet the coupling it creates for \<open>[0]\<close> and
  \<open>[0, 1]\<close> sends through \<open>DEC([0], [0, 1])\<close>, not through \<open>DEC([0, 1], [0])\<close>: the rank is
  also in the first list, the only one searched.
\<close>

theorem create_channel_orientation_counterexample:
  "is_in_grp 0 [0, 1]
   \<and> cs_paramedmem_interpkernel_create True 0 ''cpl'' [0] [0, 1] initial_registry
       = Inr (cpl01\<lparr>send_dec := Some \<lparr>source_grp = {0}, target_grp = {0, 1}, dec_calls = []\<rparr>,
                    recv_dec := Some \<lparr>source_grp = {0, 1}, target_grp = {0}, dec_calls = []\<rparr>\<rparr>,
              \<lparr>n_paramed_couplers = 1,
               paramed_couplers =
                 [cpl01\<lparr>send_dec := Some \<lparr>source_grp = {0}, target_grp = {0, 1},
                                          dec_calls = []\<rparr>,
                        recv_dec := Some \<lparr>source_grp = {0, 1}, target_grp = {0},
                                          dec_calls = []\<rparr>\<rparr>]\<rparr>)
   \<and> send_dec (cpl01\<lparr>send_dec := Some \<lparr>source_grp = {0}, target_grp = {0, 1},
                                        dec_calls = []\<rparr>,
                      recv_dec := Some \<lparr>source_grp = {0, 1}, target_grp = {0},
                                        dec_calls = []\<rparr>\<rparr>)
       \<noteq> Some (cs_paramedmem_create_InterpKernelDEC [0, 1] [0])"
proof -
  have "({0} :: int set) \<noteq> {0, 1}" by auto
  then show ?thesis
    by (simp add: cs_paramedmem_interpkernel_create_def add_paramedmem_interpkernel_def
        initial_registry_def cpl01_def array_get_def cs_paramedmem_create_InterpKernelDEC_def)
qed

text \<open>
  Claim C6, amended. A coupling created for the lists \<open>grp1\<close> and \<open>grp2\<close> by a process
  whose rank is in \<open>grp1\<close> sends through \<open>DEC(grp1, grp2)\<close> and receives through
  \<open>DEC(grp2, grp1)\<close>, whether or not the rank is in \<open>grp2\<close> as well; created by a process
  whose rank is not in \<open>grp1\<close>, as is a rank in \<open>grp2\<close> only, it sends through
  \<open>DEC(grp2, grp1)\<close> and receives through \<open>DEC(grp1, grp2)\<close>. The source and target groups of
  \<open>DEC(a, b)\<close> are the ranks of \<open>a\<close> and of \<open>b\<close>.
\<close>

theorem create_channel_orientation:
  assumes "n_paramed_couplers reg = int (length (paramed_couplers reg))"
    and "cs_paramedmem_interpkernel_create True my_rank name grp1 grp2 reg = Inr (c, reg')"
  shows "(my_rank \<in> set grp1 \<longrightarrow>
            send_dec c = Some (cs_paramedmem_create_InterpKernelDEC grp1 grp2)
          \<and> recv_dec c = Some (cs_paramedmem_create_InterpKernelDEC grp2 grp1))
       \<and> (my_rank \<notin> set grp1 \<longrightarrow>
            send_dec c = Some (cs_paramedmem_create_InterpKernelDEC grp2 grp1)
          \<and> recv_dec c = Some (cs_paramedmem_create_InterpKernelDEC grp1 grp2))
       \<and> source_grp (cs_paramedmem_create_InterpKernelDEC grp1 grp2) = set grp1
       \<and> target_grp (cs_paramedmem_create_InterpKernelDEC grp1 grp2) = set grp2
       \<and> source_grp (cs_paramedmem_create_InterpKernelDEC grp2 grp1) = set grp2
       \<and> target_grp (cs_paramedmem_create_InterpKernelDEC grp2 grp1) = set grp1"
  using assms
  by (auto simp add: cs_paramedmem_interpkernel_create_def add_paramedmem_interpkernel_def
      Let_def array_get_def is_in_grp_set cs_paramedmem_create_InterpKernelDEC_def
      split: if_splits)

text \<open>Ranks 0 and 1 creating the coupling of \<open>{0}\<close> and \<open>{1}\<close>.\<close>

theorem create_channel_orientation_witness:
  "n_paramed_couplers initial_registry = int (length (paramed_couplers initial_registry))
   \<and> cs_paramedmem_interpkernel_create True 0 ''cpl'' [0] [1] initial_registry
       = Inr (cpl01, \<lparr>n_paramed_couplers = 1, paramed_couplers = [cpl01]\<rparr>)
   \<and> 0 \<in> set [0::int]
   \<and> send_dec cpl01 = Some (cs_paramedmem_create_InterpKernelDEC [0] [1])
   \<and> recv_dec cpl01 = Some (cs_paramedmem_create_InterpKernelDEC [1] [0])
   \<and> cs_paramedmem_interpkernel_create True 1 ''cpl'' [0] [1] initial_registry
       = Inr (cpl01\<lparr>send_dec := recv_dec cpl01, recv_dec := send_dec cpl01\<rparr>,
              \<lparr>n_paramed_couplers = 1,
               paramed_couplers =
                 [cpl01\<lparr>send_dec := recv_dec cpl01, recv_dec := send_dec cpl01\<rparr>]\<rparr>)
   \<and> 1 \<in> set [1::int] \<and> 1 \<notin> set [0::int]
   \<and> send_dec (cpl01\<lparr>send_dec := recv_dec cpl01, recv_dec := send_dec cpl01\<rparr>)
       = Some (cs_paramedmem_create_InterpKernelDEC [1] [0])
   \<and> recv_dec (cpl01\<lparr>send_dec := recv_dec cpl01, recv_dec := send_dec cpl01\<rparr>)
       = Some (cs_paramedmem_create_InterpKernelDEC [0] [1])"
proof -
  have wf: "n_paramed_couplers initial_registry = int (length (paramed_couplers initial_registry))"
    by (simp add: initial_registry_def)
  have r0: "cs_paramedmem_interpkernel_create True 0 ''cpl'' [0] [1] initial_registry
       = Inr (cpl01, \<lparr>n_paramed_couplers = 1, paramed_couplers = [cpl01]\<rparr>)"
    by (simp add: cs_paramedmem_interpkernel_create_def add_paramedmem_interpkernel_def
      initial_registry_def cpl01_def array_get_def cs_paramedmem_create_InterpKernelDEC_def)
  have r1: "cs_paramedmem_interpkernel_create True 1 ''cpl'' [0] [1] initial_registry
       = Inr (cpl01\<lparr>send_dec := recv_dec cpl01, recv_dec := send_dec cpl01\<rparr>,
              \<lparr>n_paramed_couplers = 1,
               paramed_couplers =
                 [cpl01\<lparr>send_dec := recv_dec cpl01, recv_dec := send_dec cpl01\<rparr>]\<rparr>)"
    by (simp add: cs_paramedmem_interpkernel_create_def add_paramedmem_interpkernel_def
      initial_registry_def cpl01_def array_get_def cs_paramedmem_create_InterpKernelDEC_def)
  show ?thesis
    using wf r0 r1 create_channel_orientation [OF wf r0] create_channel_orientation [OF wf r1]
    by simp
qed

subsection \<open>Registration of a mesh\<close>

text \<open>
  With \<open>is_source\<close> and \<open>is_dest\<close> both false, \<^verbatim>\<open>cs_paramedmem_define_mesh\<close> returns the
  id 0 and registers a mesh of direction 0.
\<close>

theorem define_mesh_no_direction_counterexample:
  "cs_paramedmem_define_mesh True cpl01 ''m'' ''all[]'' 3 False False
     = Inr (0, cpl01\<lparr>n_meshes := 1,
                     meshes := [\<lparr>mesh = \<lparr>sel_criteria = ''all[]'', elt_dim = 3, n_elts = 0,
                                          elt_list = None, new_to_old = None,
                                          med_mesh = \<lparr>um_name = ''m'', um_time_unit = ''s'',
                                                      um_mesh_dimension = 3,
                                                      um_number_of_cells = 0,
                                                      um_number_of_nodes = 0\<rparr>\<rparr>,
                                  direction = 0, para_mesh0 = None, para_mesh1 = None\<rparr>]\<rparr>)"
  by (simp add: cs_paramedmem_define_mesh_def cpl01_def)

text \<open>
  Claim C4, amended. \<^verbatim>\<open>cs_paramedmem_define_mesh\<close> rejects no combination of the two
  flags: it always registers the mesh at the end of the array and returns its id, the
  former number of meshes. The direction of the mesh is 1 if \<open>is_source\<close>, plus 2 if
  \<open>is_dest\<close>; with both false, it is 0.
\<close>

theorem define_mesh_never_rejects:
  "cs_paramedmem_define_mesh True c name select_criteria edim is_source is_dest
     = Inr (n_meshes c,
            c\<lparr>n_meshes := n_meshes c + 1,
              meshes := meshes c @
                [\<lparr>mesh = \<lparr>sel_criteria = select_criteria, elt_dim = edim, n_elts = 0,
                           elt_list = None, new_to_old = None,
                           med_mesh = \<lparr>um_name = name, um_time_unit = ''s'',
                                       um_mesh_dimension = edim,
                                       um_number_of_cells = 0, um_number_of_nodes = 0\<rparr>\<rparr>,
                  direction = (if is_source then 1 else 0) + (if is_dest then 2 else 0),
                  para_mesh0 = None, para_mesh1 = None\<rparr>]\<rparr>)"
  by (simp add: cs_paramedmem_define_mesh_def Let_def)

subsection \<open>A build without ParaMEDMEM\<close>

text \<open>
  Without \<^verbatim>\<open>HAVE_PARAMEDMEM\<close>, \<^verbatim>\<open>cs_paramedmem_get_mpi_comm_world_ranks\<close> returns
  \<^verbatim>\<open>NULL\<close> and raises no error, and the value \<^verbatim>\<open>cs_paramedmem_mesh_get_n_elts\<close> returns
  after its error is 0.
\<close>

theorem no_paramedmem_counterexample:
  "cs_paramedmem_get_mpi_comm_world_ranks False [] = Inr None
   \<and> cs_paramedmem_mesh_get_n_elts False cpl01 0 = Inl (Bft_error no_paramedmem_msg 0)"
  by (simp add: cs_paramedmem_get_mpi_comm_world_ranks_def cs_paramedmem_mesh_get_n_elts_def)

text \<open>
  Claim C5, amended. Without \<^verbatim>\<open>HAVE_PARAMEDMEM\<close>, each of the fifteen public functions
  other than \<^verbatim>\<open>cs_paramedmem_get_mpi_comm_world_ranks\<close> calls \<^verbatim>\<open>bft_error\<close> with one and
  the same message and does nothing else; the value it returns after that is \<^verbatim>\<open>NULL\<close>
  for the two functions returning a pointer, \<open>-1\<close> for the four returning an id, 0 for
  \<^verbatim>\<open>cs_paramedmem_mesh_get_n_elts\<close>, and the other eight return nothing.
\<close>

theorem no_paramedmem_uniform_error:
  "cs_paramedmem_interpkernel_create False my_rank name grp1 grp2 reg
     = Inl (Bft_error no_paramedmem_msg None)
   \<and> cs_paramedmem_destroy False cp = Inl (Bft_error no_paramedmem_msg ())
   \<and> cs_paramedmem_define_mesh False c name select_criteria edim is_source is_dest
     = Inl (Bft_error no_paramedmem_msg (- 1))
   \<and> cs_paramedmem_init_meshes False copy_from_base c = Inl (Bft_error no_paramedmem_msg ())
   \<and> cs_paramedmem_mesh_id False name_by_value c mesh_name
     = Inl (Bft_error no_paramedmem_msg (- 1))
   \<and> cs_paramedmem_mesh_get_n_elts False c mesh_id = Inl (Bft_error no_paramedmem_msg 0)
   \<and> cs_paramedmem_mesh_get_elt_list False c mesh_id = Inl (Bft_error no_paramedmem_msg None)
   \<and> cs_paramedmem_field_add False c name mesh_id d medcpl_field_type medcpl_time_discr dirflag
     = Inl (Bft_error no_paramedmem_msg (- 1))
   \<and> cs_paramedmem_field_get_id False c mesh_id name = Inl (Bft_error no_paramedmem_msg (- 1))
   \<and> cs_paramedmem_field_export False c field_id on_parent field_values
     = Inl (Bft_error no_paramedmem_msg ())
   \<and> cs_paramedmem_field_import False c field_id on_parent field_values
     = Inl (Bft_error no_paramedmem_msg ())
   \<and> cs_paramedmem_sync_dec False c dec_to_sync = Inl (Bft_error no_paramedmem_msg ())
   \<and> cs_paramedmem_send_data False c = Inl (Bft_error no_paramedmem_msg ())
   \<and> cs_paramedmem_recv_data False c = Inl (Bft_error no_paramedmem_msg ())
   \<and> cs_paramedmem_reattach_field False c field_id = Inl (Bft_error no_paramedmem_msg ())"
  by (simp add: cs_paramedmem_interpkernel_create_def cs_paramedmem_destroy_def
      cs_paramedmem_define_mesh_def cs_paramedmem_init_meshes_def cs_paramedmem_mesh_id_def
      cs_paramedmem_mesh_get_n_elts_def cs_paramedmem_mesh_get_elt_list_def
      cs_paramedmem_field_add_def cs_paramedmem_field_get_id_def
      cs_paramedmem_field_export_def cs_paramedmem_field_import_def
      cs_paramedmem_sync_dec_def cs_paramedmem_send_data_def cs_paramedmem_recv_data_def
      cs_paramedmem_reattach_field_def)

subsection \<open>Fields and their channels\<close>

text \<open>
  Claim C9. For a field whose mesh has direction 3, \<^verbatim>\<open>cs_paramedmem_reattach_field\<close>
  returns the coupling as it is: the field is attached to neither channel. The same holds
  for every direction other than 1 and 2. With direction 1 the field's \<^verbatim>\<open>pf\<close> is attached
  to the send channel, with direction 2 to the receive channel, and nothing else changes.
\<close>

theorem reattach_field_only_single_direction:
  assumes "field_of c field_id = Some fld"
    and "mesh_of c (fld_mesh_id fld) = Some pmesh"
  shows "(direction pmesh = 3 \<longrightarrow> cs_paramedmem_reattach_field True c field_id = Inr c)
       \<and> (direction pmesh \<noteq> 1 \<and> direction pmesh \<noteq> 2 \<longrightarrow>
            cs_paramedmem_reattach_field True c field_id = Inr c)
       \<and> (direction pmesh = 1 \<longrightarrow>
            cs_paramedmem_reattach_field True c field_id
              = (case send_dec c of
                   None \<Rightarrow> Inl Null_deref
                 | Some dec \<Rightarrow>
                     Inr (c\<lparr>send_dec := Some (dec_invoke dec (AttachLocalField (fld_pf fld)))\<rparr>)))
       \<and> (direction pmesh = 2 \<longrightarrow>
            cs_paramedmem_reattach_field True c field_id
              = (case recv_dec c of
                   None \<Rightarrow> Inl Null_deref
                 | Some dec \<Rightarrow>
                     Inr (c\<lparr>recv_dec := Some (dec_invoke dec (AttachLocalField (fld_pf fld)))\<rparr>)))"
  by (simp add: cs_paramedmem_reattach_field_def deref_def
      array_get_field_of [OF assms(1)] array_get_mesh_of [OF assms(2)] split: option.splits)

text \<open>The field of \<open>cpl_sel\<close> lies on a mesh of direction 3.\<close>

theorem reattach_field_only_single_direction_witness:
  "field_of cpl_sel 0 = Some sel_field
   \<and> mesh_of cpl_sel (fld_mesh_id sel_field) = Some sel_mesh
   \<and> direction sel_mesh = 3
   \<and> cs_paramedmem_reattach_field True cpl_sel 0 = Inr cpl_sel"
proof -
  have f: "field_of cpl_sel 0 = Some sel_field"
    by (simp add: field_of_def cpl_sel_def)
  have m: "mesh_of cpl_sel (fld_mesh_id sel_field) = Some sel_mesh"
    by (simp add: mesh_of_def cpl_sel_def sel_field_def)
  have d: "direction sel_mesh = 3" by (simp add: sel_mesh_def)
  show ?thesis
    using f m d reattach_field_only_single_direction [OF f m] by simp
qed

text \<open>
  A field added with direction flag 3 on the source mesh of \<open>cpl_src\<close> is attached to no
  channel by that call. \<^verbatim>\<open>cs_paramedmem_reattach_field\<close> goes by the direction of the mesh,
  which is 1: it hands the field's unset \<^verbatim>\<open>pf\<close> to the send channel, and
  \<^verbatim>\<open>cs_paramedmem_send_data\<close> then sends on that channel.
\<close>

theorem field_add_without_channel_counterexample:
  "cs_paramedmem_define_mesh True cpl01 ''m'' ''all[]'' 2 True False = Inr (0, cpl_src)
   \<and> cs_paramedmem_field_add True cpl_src ''u'' 0 1 0 0 3
       = Inr (0, cpl_src\<lparr>n_fields := 1, cpl_fields := [loose_field]\<rparr>)
   \<and> fld_pf loose_field = Pf_uninit
   \<and> cs_paramedmem_reattach_field True (cpl_src\<lparr>n_fields := 1, cpl_fields := [loose_field]\<rparr>) 0
       = Inr (cpl_src\<lparr>n_fields := 1, cpl_fields := [loose_field],
                      send_dec := Some \<lparr>source_grp = {0}, target_grp = {1},
                                        dec_calls = [AttachLocalField Pf_uninit]\<rparr>\<rparr>)
   \<and> cs_paramedmem_send_data True
         (cpl_src\<lparr>n_fields := 1, cpl_fields := [loose_field],
                  send_dec := Some \<lparr>source_grp = {0}, target_grp = {1},
                                    dec_calls = [AttachLocalField Pf_uninit]\<rparr>\<rparr>)
       = Inr (cpl_src\<lparr>n_fields := 1, cpl_fields := [loose_field],
                      send_dec := Some \<lparr>source_grp = {0}, target_grp = {1},
                                        dec_calls = [AttachLocalField Pf_uninit, SendData]\<rparr>\<rparr>)"
  by (simp add: cs_paramedmem_define_mesh_def cs_paramedmem_field_add_def
      cs_paramedmem_reattach_field_def cs_paramedmem_send_data_def cpl_src_def cpl01_def
      src_mesh_def loose_field_def array_get_def alloc_def new_field_double_def
      dec_invoke_def deref_def cs_medcpl_vertex_field_def cs_medcpl_cell_field_def
      cs_medcpl_no_time_def cs_medcpl_one_time_def cs_medcpl_linear_time_def Let_def)

text \<open>
  Claim C10, amended. When the direction flag is neither 1 nor 2, or the channel it names is
  null, \<^verbatim>\<open>cs_paramedmem_field_add\<close> on an existing mesh does not fail: it returns the former
  number of fields, an id that denoted no field before and denotes the new field after;
  the number of fields grows by one; the array of the field has as many values as the mesh
  has located points (nodes for a vertex field, cells otherwise) times \<open>d\<close>; no
  \<^verbatim>\<open>ParaFIELD\<close> is made, the member \<^verbatim>\<open>pf\<close> staying unset; and the call attaches the field
  to no channel: both channels are as before, as are the meshes. Nothing is said of what
  later calls do with the field.
\<close>

theorem field_add_without_channel:
  assumes "mesh_of c mesh_id = Some pmesh"
    and "n_fields c = int (length (cpl_fields c))"
    and "(dirflag \<noteq> 1 \<and> dirflag \<noteq> 2)
         \<or> (dirflag = 1 \<and> send_dec c = None)
         \<or> (dirflag = 2 \<and> recv_dec c = None)"
  shows "\<exists>c' fld. cs_paramedmem_field_add True c name mesh_id d
                    medcpl_field_type medcpl_time_discr dirflag = Inr (n_fields c, c')
           \<and> field_of c (n_fields c) = None
           \<and> field_of c' (n_fields c) = Some fld
           \<and> n_fields c' = n_fields c + 1
           \<and> cpl_fields c' = cpl_fields c @ [fld]
           \<and> fld_mesh_id fld = mesh_id \<and> fld_dim fld = d
           \<and> fd_name (fld_f fld) = name
           \<and> length (fd_array (fld_f fld))
               = nat ((if medcpl_field_type = cs_medcpl_vertex_field
                       then um_number_of_nodes (med_mesh (mesh pmesh))
                       else um_number_of_cells (med_mesh (mesh pmesh))) * d)
           \<and> fld_pf fld = Pf_uninit
           \<and> send_dec c' = send_dec c \<and> recv_dec c' = recv_dec c
           \<and> meshes c' = meshes c"
proof -
  have get: "array_get (meshes c) mesh_id = Inr pmesh"
    using assms(1) by (rule array_get_mesh_of)
  have same: "(meshes c)[nat mesh_id := pmesh] = meshes c"
    using assms(1) by (auto simp add: mesh_of_def split: if_splits)
  have branch: "\<not> (dirflag = 1 \<and> send_dec c \<noteq> None)" "\<not> (dirflag = 2 \<and> recv_dec c \<noteq> None)"
    using assms(3) by auto
  show ?thesis
    using assms(2) same branch
    by (simp add: cs_paramedmem_field_add_def get Let_def field_of_def alloc_def
        new_field_double_def cs_medcpl_vertex_field_def cs_medcpl_cell_field_def)
qed

text \<open>
  A second field added to \<open>cpl_sel\<close> with direction flag 3, and a field added with
  direction flag 1 to the coupling \<open>cpl_sel\<close> without its send channel.
\<close>

theorem field_add_without_channel_witness:
  "mesh_of cpl_sel 0 = Some sel_mesh
   \<and> n_fields cpl_sel = int (length (cpl_fields cpl_sel))
   \<and> (3::int) \<noteq> 1 \<and> (3::int) \<noteq> 2
   \<and> (\<exists>c' fld. cs_paramedmem_field_add True cpl_sel ''u'' 0 3 0 0 3 = Inr (1, c')
         \<and> n_fields c' = 2 \<and> cpl_fields c' = [sel_field, fld]
         \<and> length (fd_array (fld_f fld)) = 6 \<and> fld_pf fld = Pf_uninit
         \<and> send_dec c' = send_dec cpl01 \<and> recv_dec c' = recv_dec cpl01)
   \<and> mesh_of (cpl_sel\<lparr>send_dec := None\<rparr>) 0 = Some sel_mesh
   \<and> n_fields (cpl_sel\<lparr>send_dec := None\<rparr>)
       = int (length (cpl_fields (cpl_sel\<lparr>send_dec := None\<rparr>)))
   \<and> send_dec (cpl_sel\<lparr>send_dec := None\<rparr>) = None
   \<and> (\<exists>c' fld. cs_paramedmem_field_add True (cpl_sel\<lparr>send_dec := None\<rparr>) ''u'' 0 3 1 0 1
                  = Inr (1, c')
         \<and> n_fields c' = 2 \<and> cpl_fields c' = [sel_field, fld]
         \<and> length (fd_array (fld_f fld)) = 12 \<and> fld_pf fld = Pf_uninit
         \<and> send_dec c' = None \<and> recv_dec c' = recv_dec cpl01)"
proof -
  have m: "mesh_of cpl_sel 0 = Some sel_mesh"
    by (simp add: mesh_of_def cpl_sel_def)
  have n: "n_fields cpl_sel = int (length (cpl_fields cpl_sel))"
    by (simp add: cpl_sel_def)
  have m': "mesh_of (cpl_sel\<lparr>send_dec := None\<rparr>) 0 = Some sel_mesh"
    by (simp add: mesh_of_def cpl_sel_def)
  have n': "n_fields (cpl_sel\<lparr>send_dec := None\<rparr>)
              = int (length (cpl_fields (cpl_sel\<lparr>send_dec := None\<rparr>)))"
    by (simp add: cpl_sel_def)
  have a: "\<exists>c' fld. cs_paramedmem_field_add True cpl_sel ''u'' 0 3 0 0 3 = Inr (1, c')
         \<and> n_fields c' = 2 \<and> cpl_fields c' = [sel_field, fld]
         \<and> length (fd_array (fld_f fld)) = 6 \<and> fld_pf fld = Pf_uninit
         \<and> send_dec c' = send_dec cpl01 \<and> recv_dec c' = recv_dec cpl01"
    using field_add_without_channel [OF m n, of 3 "''u''" 3 0 0]
    by (simp add: cpl_sel_def sel_mesh_def cs_medcpl_vertex_field_def) blast
  have b: "\<exists>c' fld. cs_paramedmem_field_add True (cpl_sel\<lparr>send_dec := None\<rparr>) ''u'' 0 3 1 0 1
                  = Inr (1, c')
         \<and> n_fields c' = 2 \<and> cpl_fields c' = [sel_field, fld]
         \<and> length (fd_array (fld_f fld)) = 12 \<and> fld_pf fld = Pf_uninit
         \<and> send_dec c' = None \<and> recv_dec c' = recv_dec cpl01"
    using field_add_without_channel [OF m' n', of 1 "''u''" 3 1 0]
    by (simp add: cpl_sel_def sel_mesh_def cs_medcpl_vertex_field_def) blast
  show ?thesis using m n m' n' a b by simp
qed

subsection \<open>Export and import of values\<close>

text \<open>Loops: a loop over the concatenation of two index lists, and the invariant rule.\<close>

lemma for_loop_append:
  "for_loop (xs @ ys) body s
     = (case for_loop xs body s of Inl e \<Rightarrow> Inl e | Inr t \<Rightarrow> for_loop ys body t)"
  by (induction xs arbitrary: s) (simp_all split: sum.splits)

lemma for_loop_invariant:
  assumes init: "I 0 s"
    and step: "\<And>i t. i < n \<Longrightarrow> I i t \<Longrightarrow> \<exists>t'. body i t = Inr t' \<and> I (Suc i) t'"
  shows "\<exists>t. for_loop [0..<n] body s = Inr t \<and> I n t"
proof -
  have "k \<le> n \<Longrightarrow> \<exists>t. for_loop [0..<k] body s = Inr t \<and> I k t" for k
  proof (induction k)
    case 0
    then show ?case using init by simp
  next
    case (Suc k)
    then obtain t where t: "for_loop [0..<k] body s = Inr t" "I k t" by auto
    from Suc.prems have "k < n" by simp
    from step [OF this t(2)] obtain t' where "body k t = Inr t'" "I (Suc k) t'" by blast
    then show ?case using t(1) by (simp add: for_loop_append)
  qed
  then show ?thesis by blast
qed

text \<open>An index below \<open>2 ^ 31\<close> is computed exactly.\<close>

lemma int32_nat: "x < 2 ^ 31 \<Longrightarrow> int32 (int x) = int x"
  by (simp add: int32_def)

lemma index32:
  assumes "e * dm + j < 2 ^ 31"
  shows "int32 (int32 (int e * int dm) + int j) = int (e * dm + j)"
proof -
  have "e * dm < 2 ^ 31" using assms by simp
  then have "int32 (int e * int dm) = int (e * dm)"
    using int32_nat [of "e * dm"] by simp
  then show ?thesis using int32_nat [OF assms] by simp
qed

lemma array_get_nat: "p < length a \<Longrightarrow> array_get a (int p) = Inr (a ! p)"
  by (simp add: array_get_def)

lemma array_set_nat: "p < length a \<Longrightarrow> array_set a (int p) v = Inr (a[p := v])"
  by (simp add: array_set_def)

text \<open>
  A loop whose step \<open>j\<close> stores \<open>src ! (a + j)\<close> at index \<open>b + j\<close>: what it leaves in the
  array.
\<close>

lemma copy_block:
  fixes body :: "nat \<Rightarrow> double list \<Rightarrow> unit error + double list"
  assumes body: "\<And>j t. j < m \<Longrightarrow> length t = length dst \<Longrightarrow>
                   body j t = Inr (t[b + j := src ! (a + j)])"
    and room: "b + m \<le> length dst"
  shows "\<exists>t. for_loop [0..<m] body dst = Inr t
           \<and> length t = length dst
           \<and> (\<forall>j<m. t ! (b + j) = src ! (a + j))
           \<and> (\<forall>p. p < b \<or> b + m \<le> p \<longrightarrow> t ! p = dst ! p)"
proof -
  let ?I = "\<lambda>n t. length t = length dst
          \<and> (\<forall>j<n. t ! (b + j) = src ! (a + j))
          \<and> (\<forall>p. p < b \<or> b + n \<le> p \<longrightarrow> t ! p = dst ! p)"
  have init: "?I 0 dst" by simp
  have step: "\<exists>t'. body j t = Inr t' \<and> ?I (Suc j) t'" if j: "j < m" and inv: "?I j t" for j t
  proof -
    have len: "length t = length dst" using inv by simp
    have b: "b + j < length t" using room j len by simp
    have "?I (Suc j) (t[b + j := src ! (a + j)])"
      using inv b by (auto simp add: nth_list_update less_Suc_eq)
    then show ?thesis using body [OF j len] by simp
  qed
  from for_loop_invariant [where I = ?I and body = body, OF init step]
  show ?thesis by blast
qed

lemma export_compact_ok:
  assumes "m \<le> length src" and "m \<le> length val" and "nat (int32 (d * n)) = m"
  shows "\<exists>val'. export_compact d n src val = Inr val'
           \<and> length val' = length val
           \<and> (\<forall>q<m. val' ! q = src ! q)"
proof -
  have body: "(case array_get src (int j) of Inl e \<Rightarrow> Inl e | Inr v \<Rightarrow> array_set t (int j) v)
               = (Inr (t[0 + j := src ! (0 + j)]) :: unit error + double list)"
    if "j < m" "length t = length val" for j t
    using that assms by (simp add: array_get_nat array_set_nat)
  from copy_block [where b = 0 and a = 0 and m = m and dst = val and src = src, OF body]
  show ?thesis using assms by (simp add: export_compact_def) blast
qed


lemma export_on_parent_row_ok:
  assumes el: "i < length el" "el ! i = int e"
    and src: "e * dm + dm \<le> length src"
    and val: "i * dm + dm \<le> length val"
    and lim: "e * dm + dm \<le> 2 ^ 31" "i * dm + dm \<le> 2 ^ 31"
  shows "\<exists>t. export_on_parent_row (int dm) (Some el) src i val = Inr t
           \<and> length t = length val
           \<and> (\<forall>j<dm. t ! (i * dm + j) = src ! (e * dm + j))
           \<and> (\<forall>p. p < i * dm \<or> i * dm + dm \<le> p \<longrightarrow> t ! p = val ! p)"
proof -
  have body: "(case deref (Some el) of
                 Inl x \<Rightarrow> Inl x
               | Inr l \<Rightarrow>
              (case array_get l (int i) of
                 Inl x \<Rightarrow> Inl x
               | Inr c_id \<Rightarrow>
              (case array_get src (int32 (int32 (c_id * int dm) + int j)) of
                 Inl x \<Rightarrow> Inl x
               | Inr v \<Rightarrow> array_set t (int32 (int32 (int i * int dm) + int j)) v)))
             = (Inr (t[i * dm + j := src ! (e * dm + j)]) :: unit error + double list)"
    if j: "j < dm" and len: "length t = length val" for j t
  proof -
    have a: "e * dm + j < length src" using src j by simp
    have b: "i * dm + j < length t" using val j len by simp
    have a32: "e * dm + j < 2 ^ 31" and b32: "i * dm + j < 2 ^ 31" using lim j by simp_all
    show ?thesis
      by (simp add: deref_def el(2) index32 [OF a32] index32 [OF b32]
          array_get_nat [OF el(1)] array_get_nat [OF a] array_set_nat [OF b]
          del: of_nat_add of_nat_mult)
  qed
  from copy_block [where b = "i * dm" and a = "e * dm" and m = dm and dst = val and src = src,
      OF body val]
  show ?thesis by (simp add: export_on_parent_row_def)
qed

lemma import_on_parent_row_ok:
  assumes el: "i < length el" "el ! i = int e"
    and val: "i * dm + dm \<le> length val"
    and fv: "e * dm + dm \<le> length fv"
    and lim: "e * dm + dm \<le> 2 ^ 31" "i * dm + dm \<le> 2 ^ 31"
  shows "\<exists>t. import_on_parent_row (int dm) (Some el) val i fv = Inr t
           \<and> length t = length fv
           \<and> (\<forall>j<dm. t ! (e * dm + j) = val ! (i * dm + j))
           \<and> (\<forall>p. p < e * dm \<or> e * dm + dm \<le> p \<longrightarrow> t ! p = fv ! p)"
proof -
  have body: "(case deref (Some el) of
                 Inl x \<Rightarrow> Inl x
               | Inr l \<Rightarrow>
              (case array_get l (int i) of
                 Inl x \<Rightarrow> Inl x
               | Inr c_id \<Rightarrow>
              (case array_get val (int32 (int32 (int i * int dm) + int j)) of
                 Inl x \<Rightarrow> Inl x
               | Inr v \<Rightarrow> array_set t (int32 (int32 (c_id * int dm) + int j)) v)))
             = (Inr (t[e * dm + j := val ! (i * dm + j)]) :: unit error + double list)"
    if j: "j < dm" and len: "length t = length fv" for j t
  proof -
    have a: "i * dm + j < length val" using val j by simp
    have b: "e * dm + j < length t" using fv j len by simp
    have a32: "i * dm + j < 2 ^ 31" and b32: "e * dm + j < 2 ^ 31" using lim j by simp_all
    show ?thesis
      by (simp add: deref_def el(2) index32 [OF a32] index32 [OF b32]
          array_get_nat [OF el(1)] array_get_nat [OF a] array_set_nat [OF b]
          del: of_nat_add of_nat_mult)
  qed
  from copy_block [where b = "e * dm" and a = "i * dm" and m = dm and dst = fv and src = val,
      OF body fv]
  show ?thesis by (simp add: import_on_parent_row_def)
qed

lemma import_new_to_old_row_eq:
  "import_new_to_old_row d l val i = import_on_parent_row d l val i"
  unfolding import_new_to_old_row_def import_on_parent_row_def mult.commute [of d]
  by (rule refl)

lemma import_new_to_old_eq:
  "import_new_to_old d n l val fv = import_on_parent d n l val fv"
  by (simp add: import_new_to_old_def import_on_parent_def import_new_to_old_row_eq [abs_def])


lemma row_within: "i < k \<Longrightarrow> i * dm + dm \<le> k * (dm::nat)"
proof -
  assume "i < k"
  then have "Suc i * dm \<le> k * dm" by (intro mult_le_mono1) simp
  then show ?thesis by (simp add: add.commute)
qed

lemma export_on_parent_ok:
  assumes len: "k \<le> length el"
    and sel: "\<forall>i<k. 0 \<le> el ! i \<and> nat (el ! i) * dm + dm \<le> length src"
    and val: "k * dm \<le> length val"
    and lim: "\<forall>i<k. nat (el ! i) * dm + dm \<le> 2 ^ 31" "k * dm \<le> 2 ^ 31"
  shows "\<exists>t. export_on_parent (int dm) (int k) (Some el) src val = Inr t
           \<and> length t = length val
           \<and> (\<forall>i<k. \<forall>j<dm. t ! (i * dm + j) = src ! (nat (el ! i) * dm + j))"
proof -
  let ?I = "\<lambda>n t. length t = length val
          \<and> (\<forall>i<n. \<forall>j<dm. t ! (i * dm + j) = src ! (nat (el ! i) * dm + j))"
  have init: "?I 0 val" by simp
  have step: "\<exists>t'. export_on_parent_row (int dm) (Some el) src i t = Inr t' \<and> ?I (Suc i) t'"
    if i: "i < k" and inv: "?I i t" for i t
  proof -
    have a: "i < length el" using i len by simp
    have b: "el ! i = int (nat (el ! i))" using sel i by simp
    have c: "nat (el ! i) * dm + dm \<le> length src" using sel i by simp
    have d: "i * dm + dm \<le> length t" using row_within [OF i, of dm] val inv by simp
    have e32: "nat (el ! i) * dm + dm \<le> 2 ^ 31" using lim(1) i by simp
    have i32: "i * dm + dm \<le> 2 ^ 31" using row_within [OF i, of dm] lim(2) by simp
    from export_on_parent_row_ok [OF a b c d e32 i32] obtain t' where
      run: "export_on_parent_row (int dm) (Some el) src i t = Inr t'"
      and l: "length t' = length t"
      and new: "\<forall>j<dm. t' ! (i * dm + j) = src ! (nat (el ! i) * dm + j)"
      and old: "\<forall>p. p < i * dm \<or> i * dm + dm \<le> p \<longrightarrow> t' ! p = t ! p" by blast
    have "t' ! (i' * dm + j) = src ! (nat (el ! i') * dm + j)"
      if i': "i' < Suc i" and j: "j < dm" for i' j
    proof (cases "i' = i")
      case True
      then show ?thesis using new j by simp
    next
      case False
      then have lt: "i' < i" using i' by simp
      have "i' * dm + j < i' * dm + dm" using j by simp
      also have "\<dots> \<le> i * dm" using row_within [OF lt, of dm] .
      finally have "t' ! (i' * dm + j) = t ! (i' * dm + j)" using old by simp
      then show ?thesis using inv lt j by simp
    qed
    moreover have "length t' = length val" using l inv by simp
    ultimately have "?I (Suc i) t'" by blast
    with run show ?thesis by blast
  qed
  from for_loop_invariant [where I = ?I and n = k
      and body = "export_on_parent_row (int dm) (Some el) src", OF init step]
  obtain t where run: "for_loop [0..<k] (export_on_parent_row (int dm) (Some el) src) val = Inr t"
    and fin: "?I k t" by blast
  from run have "export_on_parent (int dm) (int k) (Some el) src val = Inr t"
    by (simp add: export_on_parent_def)
  with fin show ?thesis by blast
qed

lemma import_on_parent_ok:
  assumes len: "k \<le> length el"
    and sel: "\<forall>i<k. 0 \<le> el ! i \<and> nat (el ! i) * dm + dm \<le> length fv"
    and val: "k * dm \<le> length val"
    and lim: "\<forall>i<k. nat (el ! i) * dm + dm \<le> 2 ^ 31" "k * dm \<le> 2 ^ 31"
    and vals: "\<forall>i<k. \<forall>j<dm. val ! (i * dm + j) = g (nat (el ! i) * dm + j)"
  shows "\<exists>t. import_on_parent (int dm) (int k) (Some el) val fv = Inr t
           \<and> length t = length fv
           \<and> (\<forall>i<k. \<forall>j<dm. t ! (nat (el ! i) * dm + j) = g (nat (el ! i) * dm + j))
           \<and> (\<forall>p. (\<forall>i<k. p < nat (el ! i) * dm \<or> nat (el ! i) * dm + dm \<le> p)
                  \<longrightarrow> t ! p = fv ! p)"
proof -
  let ?I = "\<lambda>n t. length t = length fv
          \<and> (\<forall>i<n. \<forall>j<dm. t ! (nat (el ! i) * dm + j) = g (nat (el ! i) * dm + j))
          \<and> (\<forall>p. (\<forall>i<n. p < nat (el ! i) * dm \<or> nat (el ! i) * dm + dm \<le> p)
                 \<longrightarrow> t ! p = fv ! p)"
  have init: "?I 0 fv" by simp
  have step: "\<exists>t'. import_on_parent_row (int dm) (Some el) val i t = Inr t' \<and> ?I (Suc i) t'"
    if i: "i < k" and inv: "?I i t" for i t
  proof -
    let ?e = "nat (el ! i)"
    have a: "i < length el" using i len by simp
    have b: "el ! i = int ?e" using sel i by simp
    have c: "i * dm + dm \<le> length val" using row_within [OF i, of dm] val by simp
    have d: "?e * dm + dm \<le> length t" using sel i inv by simp
    have e32: "?e * dm + dm \<le> 2 ^ 31" using lim(1) i by simp
    have i32: "i * dm + dm \<le> 2 ^ 31" using row_within [OF i, of dm] lim(2) by simp
    from import_on_parent_row_ok [OF a b c d e32 i32] obtain t' where
      run: "import_on_parent_row (int dm) (Some el) val i t = Inr t'"
      and l: "length t' = length t"
      and new: "\<forall>j<dm. t' ! (?e * dm + j) = val ! (i * dm + j)"
      and old: "\<forall>p. p < ?e * dm \<or> ?e * dm + dm \<le> p \<longrightarrow> t' ! p = t ! p" by blast
    have row: "t' ! (?e * dm + j) = g (?e * dm + j)" if "j < dm" for j
      using new vals i that by simp
    have sel': "t' ! (nat (el ! i') * dm + j) = g (nat (el ! i') * dm + j)"
      if i': "i' < Suc i" and j: "j < dm" for i' j
    proof (cases "i' = i")
      case True
      then show ?thesis using row j by simp
    next
      case False
      then have lt: "i' < i" using i' by simp
      let ?q = "nat (el ! i') * dm + j"
      show ?thesis
      proof (cases "?q < ?e * dm \<or> ?e * dm + dm \<le> ?q")
        case True
        then have "t' ! ?q = t ! ?q" using old by blast
        then show ?thesis using inv lt j by simp
      next
        case False
        then have ge: "?e * dm \<le> ?q" and lt': "?q < ?e * dm + dm" by simp_all
        from ge have eq: "?e * dm + (?q - ?e * dm) = ?q" by simp
        from ge lt' have "?q - ?e * dm < dm" by simp
        from row [OF this] show ?thesis unfolding eq .
      qed
    qed
    have frame: "t' ! p = fv ! p"
      if "\<forall>i'<Suc i. p < nat (el ! i') * dm \<or> nat (el ! i') * dm + dm \<le> p" for p
    proof -
      from that have here: "p < ?e * dm \<or> ?e * dm + dm \<le> p" by blast
      from that have before: "\<forall>i'<i. p < nat (el ! i') * dm \<or> nat (el ! i') * dm + dm \<le> p"
        by simp
      have "t' ! p = t ! p" using here old by blast
      moreover have "t ! p = fv ! p" using before inv by blast
      ultimately show ?thesis by simp
    qed
    have "length t' = length fv" using l inv by simp
    with sel' frame have "?I (Suc i) t'" by blast
    with run show ?thesis by blast
  qed
  from for_loop_invariant [where I = ?I and n = k
      and body = "import_on_parent_row (int dm) (Some el) val", OF init step]
  obtain t where run: "for_loop [0..<k] (import_on_parent_row (int dm) (Some el) val) fv = Inr t"
    and fin: "?I k t" by blast
  from run have "import_on_parent (int dm) (int k) (Some el) val fv = Inr t"
    by (simp add: import_on_parent_def)
  with fin show ?thesis by blast
qed


lemma field_export_result:
  assumes fld: "field_of c field_id = Some fld"
    and msh: "mesh_of c (fld_mesh_id fld) = Some pmesh"
    and run: "(if \<not> on_parent
               then export_compact (fld_dim fld) (n_elts (mesh pmesh)) src (fd_array (fld_f fld))
               else export_on_parent (fld_dim fld) (n_elts (mesh pmesh)) (elt_list (mesh pmesh))
                      src (fd_array (fld_f fld))) = Inr val"
  shows "\<exists>c' fld'. cs_paramedmem_field_export True c field_id on_parent src = Inr c'
           \<and> field_of c' field_id = Some fld'
           \<and> fld_mesh_id fld' = fld_mesh_id fld \<and> fld_dim fld' = fld_dim fld
           \<and> fd_array (fld_f fld') = val
           \<and> mesh_of c' (fld_mesh_id fld) = Some pmesh"
proof -
  let ?fld' = "fld\<lparr>fld_f := (fld_f fld)\<lparr>fd_array := val,
                   fd_time_label := Suc (fd_time_label (fld_f fld))\<rparr>\<rparr>"
  let ?c' = "c\<lparr>cpl_fields := (cpl_fields c)[nat field_id := ?fld']\<rparr>"
  have "cs_paramedmem_field_export True c field_id on_parent src = Inr ?c'"
    using run
    by (simp add: cs_paramedmem_field_export_def array_get_field_of [OF fld]
        array_get_mesh_of [OF msh] split: if_splits)
  moreover have "field_of ?c' field_id = Some ?fld'"
    using fld by (simp add: field_of_def split: if_splits)
  moreover have "mesh_of ?c' (fld_mesh_id fld) = Some pmesh"
    using msh by (simp add: mesh_of_def split: if_splits)
  ultimately show ?thesis by (intro exI [of _ ?c'] exI [of _ ?fld']) simp
qed

lemma field_import_unfold:
  assumes fld: "field_of c field_id = Some fld"
    and msh: "mesh_of c (fld_mesh_id fld) = Some pmesh"
  shows "cs_paramedmem_field_import True c field_id on_parent dst
           = (if \<not> on_parent
              then import_new_to_old (fld_dim fld) (n_elts (mesh pmesh)) (new_to_old (mesh pmesh))
                     (fd_array (fld_f fld)) dst
              else import_on_parent (fld_dim fld) (n_elts (mesh pmesh)) (elt_list (mesh pmesh))
                     (fd_array (fld_f fld)) dst)"
  by (simp add: cs_paramedmem_field_import_def array_get_field_of [OF fld]
      array_get_mesh_of [OF msh])

lemma export_then_import:
  assumes fld: "field_of c field_id = Some fld"
    and msh: "mesh_of c (fld_mesh_id fld) = Some pmesh"
    and k: "n_elts (mesh pmesh) = int k"
    and dm: "fld_dim fld = int dm"
    and buf: "k * dm \<le> length (fd_array (fld_f fld))"
    and el: "(if on_parent then elt_list (mesh pmesh) else new_to_old (mesh pmesh)) = Some el"
    and len: "k \<le> length el"
    and rng: "\<forall>i<k. 0 \<le> el ! i \<and> nat (el ! i) * dm + dm \<le> length src
                       \<and> nat (el ! i) * dm + dm \<le> length dst"
    and inverse: "\<not> on_parent \<longrightarrow> (\<forall>i<k. el ! i = int i)"
    and lim: "\<forall>i<k. nat (el ! i) * dm + dm \<le> 2 ^ 31"
    and klim: "k * dm < 2 ^ 31"
  shows "\<exists>c' dst'. cs_paramedmem_field_export True c field_id on_parent src = Inr c'
           \<and> cs_paramedmem_field_import True c' field_id on_parent dst = Inr dst'
           \<and> length dst' = length dst
           \<and> (\<forall>i<k. \<forall>j<dm. dst' ! (nat (el ! i) * dm + j) = src ! (nat (el ! i) * dm + j))
           \<and> (\<forall>p. (\<forall>i<k. p < nat (el ! i) * dm \<or> nat (el ! i) * dm + dm \<le> p)
                  \<longrightarrow> dst' ! p = dst ! p)"
proof -
  have rng_src: "\<forall>i<k. 0 \<le> el ! i \<and> nat (el ! i) * dm + dm \<le> length src"
    and rng_dst: "\<forall>i<k. 0 \<le> el ! i \<and> nat (el ! i) * dm + dm \<le> length dst"
    using rng by simp_all
  have klim': "k * dm \<le> 2 ^ 31" using klim by simp
  have "\<exists>val. (if \<not> on_parent
               then export_compact (fld_dim fld) (n_elts (mesh pmesh)) src (fd_array (fld_f fld))
               else export_on_parent (fld_dim fld) (n_elts (mesh pmesh)) (elt_list (mesh pmesh))
                      src (fd_array (fld_f fld))) = Inr val
          \<and> length val = length (fd_array (fld_f fld))
          \<and> (\<forall>i<k. \<forall>j<dm. val ! (i * dm + j) = src ! (nat (el ! i) * dm + j))"
  proof (cases on_parent)
    case True
    then have "elt_list (mesh pmesh) = Some el" using el by simp
    then show ?thesis
      using True export_on_parent_ok [OF len rng_src buf lim klim'] by (simp add: k dm)
  next
    case False
    then have id: "\<forall>i<k. el ! i = int i" using inverse by simp
    have src_len: "k * dm \<le> length src"
    proof (cases k)
      case 0
      then show ?thesis by simp
    next
      case (Suc k')
      then have "nat (el ! k') * dm + dm \<le> length src" "el ! k' = int k'"
        using rng_src id by simp_all
      then show ?thesis using Suc by (simp add: add.commute)
    qed
    have wrap: "int32 (int (dm * k)) = int (dm * k)"
      using klim by (intro int32_nat) (simp add: mult.commute)
    have prod: "fld_dim fld * n_elts (mesh pmesh) = int (dm * k)" by (simp add: k dm)
    have cnt: "nat (int32 (fld_dim fld * n_elts (mesh pmesh))) = k * dm"
      unfolding prod wrap by (simp add: mult.commute del: of_nat_mult)
    from export_compact_ok [OF src_len buf cnt] obtain val where
      run: "export_compact (fld_dim fld) (n_elts (mesh pmesh)) src (fd_array (fld_f fld)) = Inr val"
      and l: "length val = length (fd_array (fld_f fld))"
      and cp: "\<forall>q<k * dm. val ! q = src ! q" by blast
    have "val ! (i * dm + j) = src ! (nat (el ! i) * dm + j)" if i: "i < k" and j: "j < dm" for i j
    proof -
      have "i * dm + j < i * dm + dm" using j by simp
      also have "\<dots> \<le> k * dm" by (rule row_within [OF i])
      finally have "val ! (i * dm + j) = src ! (i * dm + j)" using cp by simp
      then show ?thesis using id i by simp
    qed
    then show ?thesis using False run l by simp
  qed
  then obtain val where
    run: "(if \<not> on_parent
           then export_compact (fld_dim fld) (n_elts (mesh pmesh)) src (fd_array (fld_f fld))
           else export_on_parent (fld_dim fld) (n_elts (mesh pmesh)) (elt_list (mesh pmesh))
                  src (fd_array (fld_f fld))) = Inr val"
    and l: "length val = length (fd_array (fld_f fld))"
    and vals: "\<forall>i<k. \<forall>j<dm. val ! (i * dm + j) = (!) src (nat (el ! i) * dm + j)" by auto
  from field_export_result [OF fld msh run] obtain c' fld' where
    ex: "cs_paramedmem_field_export True c field_id on_parent src = Inr c'"
    and fld': "field_of c' field_id = Some fld'"
    and same: "fld_mesh_id fld' = fld_mesh_id fld" "fld_dim fld' = fld_dim fld"
    and arr: "fd_array (fld_f fld') = val"
    and msh': "mesh_of c' (fld_mesh_id fld) = Some pmesh" by blast
  have msh'': "mesh_of c' (fld_mesh_id fld') = Some pmesh" using msh' same by simp
  have buf': "k * dm \<le> length val" using buf l by simp
  from import_on_parent_ok [OF len rng_dst buf' lim klim' vals] obtain dst' where
    im: "import_on_parent (int dm) (int k) (Some el) val dst = Inr dst'"
    and l': "length dst' = length dst"
    and res: "\<forall>i<k. \<forall>j<dm. dst' ! (nat (el ! i) * dm + j) = src ! (nat (el ! i) * dm + j)"
    and frame: "\<forall>p. (\<forall>i<k. p < nat (el ! i) * dm \<or> nat (el ! i) * dm + dm \<le> p)
                  \<longrightarrow> dst' ! p = dst ! p"
    by blast
  have "cs_paramedmem_field_import True c' field_id on_parent dst = Inr dst'"
    using im el
    by (simp add: field_import_unfold [OF fld' msh''] same arr k dm import_new_to_old_eq
        split: if_splits)
  with ex l' res frame show ?thesis by blast
qed


lemma field_add_buffer_size:
  assumes "cs_paramedmem_field_add True c name mesh_id d medcpl_field_type medcpl_time_discr
             dirflag = Inr (f_id, c')"
    and "mesh_of c mesh_id = Some pmesh"
  shows "length (fd_array (fld_f (last (cpl_fields c'))))
           = nat ((if medcpl_field_type = cs_medcpl_vertex_field
                   then um_number_of_nodes (med_mesh (mesh pmesh))
                   else um_number_of_cells (med_mesh (mesh pmesh))) * d)"
  using assms(1)
  by (auto simp add: cs_paramedmem_field_add_def array_get_mesh_of [OF assms(2)] Let_def
      alloc_def cs_medcpl_vertex_field_def cs_medcpl_cell_field_def)

text \<open>
  Two round trips that fail. The first field is built by the file's own functions: a mesh
  defined as a source, initialised to the eight faces and six vertices of an octahedron, and
  a field of one component on its vertices, whose array has six values; the export, which
  copies one value per face, leaves the array at the seventh. The second is the field of
  \<open>cpl_big\<close>, on the element \<open>2 ^ 30\<close> of a parent mesh of \<open>2 ^ 30 + 1\<close> elements, with four
  components: the position of its first component is \<open>2 ^ 32\<close>, the 32-bit product is 0, and
  after the round trip the destination still holds 9 where the source holds 5.
\<close>

theorem export_import_roundtrip_counterexample:
  "cs_paramedmem_define_mesh True cpl01 ''m'' ''all[]'' 2 True False = Inr (0, cpl_src)
   \<and> cs_paramedmem_init_meshes True copy_oct cpl_src = Inr (cpl_src\<lparr>meshes := [oct_mesh]\<rparr>)
   \<and> cs_paramedmem_field_add True (cpl_src\<lparr>meshes := [oct_mesh]\<rparr>) ''u'' 0 1
         cs_medcpl_vertex_field cs_medcpl_no_time 1 = Inr (0, cpl_oct)
   \<and> cs_paramedmem_field_export True cpl_oct 0 False [1, 2, 3, 4, 5, 6, 7, 8]
       = Inl Out_of_bounds
   \<and> cs_paramedmem_field_export True (cpl_big [0, 0, 0, 0] 0) 0 True (replicate 4294967300 5)
       = Inr (cpl_big [5, 5, 5, 5] 1)
   \<and> cs_paramedmem_field_import True (cpl_big [5, 5, 5, 5] 1) 0 True (replicate 4294967300 9)
       = Inr ((replicate 4294967300 9)[0 := 5, 1 := 5, 2 := 5, 3 := 5])
   \<and> ((replicate 4294967300 9)[0 := 5, 1 := 5, 2 := 5, 3 := 5] :: double list) ! 4294967296 = 9
   \<and> (replicate 4294967300 5 :: double list) ! 4294967296 = 5"
proof -
  have "cs_paramedmem_define_mesh True cpl01 ''m'' ''all[]'' 2 True False = Inr (0, cpl_src)"
    by (simp add: cs_paramedmem_define_mesh_def cpl01_def cpl_src_def src_mesh_def)
  moreover have "cs_paramedmem_init_meshes True copy_oct cpl_src
                   = Inr (cpl_src\<lparr>meshes := [oct_mesh]\<rparr>)"
    by (simp add: cs_paramedmem_init_meshes_def cpl_src_def cpl01_def oct_mesh_def
        init_mesh_coupling_def deref_def array_get_def array_set_def upt_rec)
  moreover have "cs_paramedmem_field_add True (cpl_src\<lparr>meshes := [oct_mesh]\<rparr>) ''u'' 0 1
                   cs_medcpl_vertex_field cs_medcpl_no_time 1 = Inr (0, cpl_oct)"
    by (simp add: cs_paramedmem_field_add_def cpl_src_def cpl01_def oct_mesh_def cpl_oct_def
        oct_field_def oct_pf_def src_mesh_def copy_oct_def array_get_def alloc_def
        new_field_double_def dec_invoke_def cs_medcpl_vertex_field_def
        cs_medcpl_cell_field_def cs_medcpl_no_time_def Let_def eval_nat_numeral)
  moreover have "cs_paramedmem_field_export True cpl_oct 0 False [1, 2, 3, 4, 5, 6, 7, 8]
                   = Inl Out_of_bounds"
    by (simp add: cs_paramedmem_field_export_def cpl_oct_def cpl01_def oct_field_def
        oct_mesh_def src_mesh_def copy_oct_def array_get_def array_set_def
        export_compact_def int32_def upt_rec)
  moreover have "cs_paramedmem_field_export True (cpl_big [0, 0, 0, 0] 0) 0 True
                   (replicate 4294967300 5) = Inr (cpl_big [5, 5, 5, 5] 1)"
    by (simp add: cs_paramedmem_field_export_def cpl_big_def big_field_def big_mesh_def
        cpl01_def array_get_def array_set_def export_on_parent_def export_on_parent_row_def
        deref_def int32_def upt_rec)
  moreover have "cs_paramedmem_field_import True (cpl_big [5, 5, 5, 5] 1) 0 True
                   (replicate 4294967300 9)
                   = Inr ((replicate 4294967300 9)[0 := 5, 1 := 5, 2 := 5, 3 := 5])"
    by (simp add: cs_paramedmem_field_import_def cpl_big_def big_field_def big_mesh_def
        cpl01_def array_get_def array_set_def import_on_parent_def import_on_parent_row_def
        deref_def int32_def upt_rec)
  ultimately show ?thesis by simp
qed

text \<open>
  Claim C7, amended. Take a field of \<open>dm\<close> components on a mesh of \<open>k\<close> elements whose
  array holds at least \<open>k * dm\<close> values (\<^verbatim>\<open>cs_paramedmem_field_add\<close> gives it the number of
  located points times \<open>dm\<close>), arrays \<open>src\<close> and \<open>dst\<close> large enough for every index the
  mapping \<open>el\<close> addresses (\<^verbatim>\<open>elt_list\<close> when \<open>on_parent\<close>, \<^verbatim>\<open>new_to_old\<close> otherwise), and let
  these indices and \<open>k * dm\<close> lie in the 32-bit range. Then \<^verbatim>\<open>cs_paramedmem_field_export\<close>
  of \<open>src\<close> followed by \<^verbatim>\<open>cs_paramedmem_field_import\<close> into \<open>dst\<close> with the same flag both
  return, and \<open>dst\<close> then holds the value of \<open>src\<close> at each position the mapping covers,
  that is at each component \<open>j\<close> of each element \<open>el ! i\<close>. With \<open>on_parent\<close> this holds for
  every \<^verbatim>\<open>elt_list\<close>, the export and the import going through the same list; without it,
  the export copies a contiguous block, and the round trip is the identity provided
  \<^verbatim>\<open>new_to_old\<close> maps each compact index to itself.
\<close>

theorem export_import_roundtrip:
  assumes "field_of c field_id = Some fld"
    and "mesh_of c (fld_mesh_id fld) = Some pmesh"
    and "n_elts (mesh pmesh) = int k"
    and "fld_dim fld = int dm"
    and "k * dm \<le> length (fd_array (fld_f fld))"
    and "(if on_parent then elt_list (mesh pmesh) else new_to_old (mesh pmesh)) = Some el"
    and "k \<le> length el"
    and "\<forall>i<k. 0 \<le> el ! i \<and> nat (el ! i) * dm + dm \<le> length src
                   \<and> nat (el ! i) * dm + dm \<le> length dst"
    and "\<not> on_parent \<longrightarrow> (\<forall>i<k. el ! i = int i)"
    and "\<forall>i<k. nat (el ! i) * dm + dm \<le> 2 ^ 31"
    and "k * dm < 2 ^ 31"
  shows "\<exists>c' dst'. cs_paramedmem_field_export True c field_id on_parent src = Inr c'
           \<and> cs_paramedmem_field_import True c' field_id on_parent dst = Inr dst'
           \<and> length dst' = length dst
           \<and> (\<forall>i<k. \<forall>j<dm. dst' ! (nat (el ! i) * dm + j) = src ! (nat (el ! i) * dm + j))"
  using export_then_import [OF assms] by blast

text \<open>
  The field of \<open>cpl_sel\<close>, as \<^verbatim>\<open>cs_paramedmem_field_add\<close> makes it: two components on the
  two cells of the mesh, which are the elements 2 and 0 of a parent mesh of three elements.
  Both round trips, into an array of nines.
\<close>

theorem export_import_roundtrip_witness:
  "cs_paramedmem_field_add True (cpl01\<lparr>n_meshes := 1, meshes := [sel_mesh]\<rparr>) ''t'' 0 2
       cs_medcpl_cell_field cs_medcpl_no_time 3 = Inr (0, cpl_sel)
   \<and> field_of cpl_sel 0 = Some sel_field
   \<and> mesh_of cpl_sel (fld_mesh_id sel_field) = Some sel_mesh
   \<and> n_elts (mesh sel_mesh) = 2 \<and> fld_dim sel_field = 2
   \<and> elt_list (mesh sel_mesh) = Some [2, 0] \<and> new_to_old (mesh sel_mesh) = Some [0, 1]
   \<and> (\<exists>c'. cs_paramedmem_field_export True cpl_sel 0 True [1, 2, 3, 4, 5, 6] = Inr c'
          \<and> cs_paramedmem_field_import True c' 0 True [9, 9, 9, 9, 9, 9]
              = Inr [1, 2, 9, 9, 5, 6])
   \<and> (\<exists>c'. cs_paramedmem_field_export True cpl_sel 0 False [1, 2, 3, 4, 5, 6] = Inr c'
          \<and> cs_paramedmem_field_import True c' 0 False [9, 9, 9, 9, 9, 9]
              = Inr [1, 2, 3, 4, 9, 9])"
proof -
  let ?src = "[1, 2, 3, 4, 5, 6] :: double list"
  let ?dst = "[9, 9, 9, 9, 9, 9] :: double list"
  have f: "field_of cpl_sel 0 = Some sel_field"
    by (simp add: field_of_def cpl_sel_def)
  have m: "mesh_of cpl_sel (fld_mesh_id sel_field) = Some sel_mesh"
    by (simp add: mesh_of_def cpl_sel_def sel_field_def)
  have k: "n_elts (mesh sel_mesh) = int 2" by (simp add: sel_mesh_def)
  have d: "fld_dim sel_field = int 2" by (simp add: sel_field_def)
  have buf: "2 * 2 \<le> length (fd_array (fld_f sel_field))" by (simp add: sel_field_def)
  have el: "(if True then elt_list (mesh sel_mesh) else new_to_old (mesh sel_mesh)) = Some [2, 0]"
    by (simp add: sel_mesh_def)
  have n2o: "(if False then elt_list (mesh sel_mesh) else new_to_old (mesh sel_mesh)) = Some [0, 1]"
    by (simp add: sel_mesh_def)
  have len: "2 \<le> length [2, 0::int]" "2 \<le> length [0, 1::int]" by simp_all
  have rng: "\<forall>i<2. 0 \<le> [2, 0::int] ! i \<and> nat ([2, 0] ! i) * 2 + 2 \<le> length ?src
                      \<and> nat ([2, 0] ! i) * 2 + 2 \<le> length ?dst"
    by (auto simp add: less_Suc_eq numeral_2_eq_2)
  have rng': "\<forall>i<2. 0 \<le> [0, 1::int] ! i \<and> nat ([0, 1] ! i) * 2 + 2 \<le> length ?src
                      \<and> nat ([0, 1] ! i) * 2 + 2 \<le> length ?dst"
    by (auto simp add: less_Suc_eq numeral_2_eq_2)
  have inv: "\<not> True \<longrightarrow> (\<forall>i<2. [2, 0::int] ! i = int i)" by simp
  have inv': "\<not> False \<longrightarrow> (\<forall>i<2. [0, 1::int] ! i = int i)"
    by (auto simp add: less_Suc_eq numeral_2_eq_2)
  have lim: "\<forall>i<2. nat ([2, 0::int] ! i) * 2 + 2 \<le> 2 ^ 31"
  proof (intro allI impI)
    fix i :: nat assume "i < 2"
    then have "i = 0 \<or> i = 1" by auto
    then show "nat ([2, 0::int] ! i) * 2 + 2 \<le> 2 ^ 31" by auto
  qed
  have lim': "\<forall>i<2. nat ([0, 1::int] ! i) * 2 + 2 \<le> 2 ^ 31"
  proof (intro allI impI)
    fix i :: nat assume "i < 2"
    then have "i = 0 \<or> i = 1" by auto
    then show "nat ([0, 1::int] ! i) * 2 + 2 \<le> 2 ^ 31" by auto
  qed
  have klim: "2 * 2 < (2::nat) ^ 31" by simp
  from export_import_roundtrip [OF f m k d buf el len(1) rng inv lim klim] obtain c1 d1 where
    e1: "cs_paramedmem_field_export True cpl_sel 0 True ?src = Inr c1"
    and i1: "cs_paramedmem_field_import True c1 0 True ?dst = Inr d1" by blast
  from export_import_roundtrip [OF f m k d buf n2o len(2) rng' inv' lim' klim] obtain c2 d2 where
    e2: "cs_paramedmem_field_export True cpl_sel 0 False ?src = Inr c2"
    and i2: "cs_paramedmem_field_import True c2 0 False ?dst = Inr d2" by blast
  have loops:
    "export_on_parent 2 2 (Some [2, 0]) ?src [0, 0, 0, 0] = Inr [5, 6, 1, 2]"
    "import_on_parent 2 2 (Some [2, 0]) [5, 6, 1, 2] ?dst = Inr [1, 2, 9, 9, 5, 6]"
    "export_compact 2 2 ?src [0, 0, 0, 0] = Inr [1, 2, 3, 4]"
    "import_new_to_old 2 2 (Some [0, 1]) [1, 2, 3, 4] ?dst = Inr [1, 2, 3, 4, 9, 9]"
    by (simp_all add: export_on_parent_def export_on_parent_row_def import_on_parent_def
        import_on_parent_row_def export_compact_def import_new_to_old_def
        import_new_to_old_row_def deref_def array_get_def array_set_def int32_def upt_rec)
  have c1: "c1 = cpl_sel\<lparr>cpl_fields := [sel_field\<lparr>fld_f := (fld_f sel_field)
                 \<lparr>fd_array := [5, 6, 1, 2], fd_time_label := 1\<rparr>\<rparr>]\<rparr>"
    using e1
    by (simp add: cs_paramedmem_field_export_def cpl_sel_def sel_field_def sel_mesh_def
        array_get_def loops)
  have c2: "c2 = cpl_sel\<lparr>cpl_fields := [sel_field\<lparr>fld_f := (fld_f sel_field)
                 \<lparr>fd_array := [1, 2, 3, 4], fd_time_label := 1\<rparr>\<rparr>]\<rparr>"
    using e2
    by (simp add: cs_paramedmem_field_export_def cpl_sel_def sel_field_def sel_mesh_def
        array_get_def loops)
  have "d1 = [1, 2, 9, 9, 5, 6]"
    using i1 unfolding c1
    by (simp add: cs_paramedmem_field_import_def cpl_sel_def sel_field_def sel_mesh_def
        array_get_def loops)
  moreover have "d2 = [1, 2, 3, 4, 9, 9]"
    using i2 unfolding c2
    by (simp add: cs_paramedmem_field_import_def cpl_sel_def sel_field_def sel_mesh_def
        array_get_def loops)
  ultimately have "\<exists>c'. cs_paramedmem_field_export True cpl_sel 0 True ?src = Inr c'
          \<and> cs_paramedmem_field_import True c' 0 True ?dst = Inr [1, 2, 9, 9, 5, 6]"
    and "\<exists>c'. cs_paramedmem_field_export True cpl_sel 0 False ?src = Inr c'
          \<and> cs_paramedmem_field_import True c' 0 False ?dst = Inr [1, 2, 3, 4, 9, 9]"
    using e1 i1 e2 i2 by blast+
  moreover have "cs_paramedmem_field_add True (cpl01\<lparr>n_meshes := 1, meshes := [sel_mesh]\<rparr>)
                   ''t'' 0 2 cs_medcpl_cell_field cs_medcpl_no_time 3 = Inr (0, cpl_sel)"
    by (simp add: cs_paramedmem_field_add_def cpl_sel_def cpl01_def sel_mesh_def
        sel_field_def array_get_def alloc_def new_field_double_def
        cs_medcpl_vertex_field_def cs_medcpl_cell_field_def cs_medcpl_no_time_def Let_def
        eval_nat_numeral)
  ultimately show ?thesis using f m by (simp add: sel_mesh_def sel_field_def)
qed

text \<open>The number of original indices below \<open>n\<close> that a selection of \<open>k\<close> of them leaves out.\<close>

lemma unselected_count:
  assumes len: "k \<le> length el"
    and sel: "\<forall>i<k. 0 \<le> el ! i \<and> el ! i < int n"
    and dist: "distinct (take k el)"
  shows "card {e. e < n \<and> int e \<notin> set (take k el)} = n - k"
proof -
  let ?B = "{e. e < n \<and> int e \<in> set (take k el)}"
  have "set (take k el) = int ` ?B"
  proof
    show "set (take k el) \<subseteq> int ` ?B"
    proof
      fix x assume x: "x \<in> set (take k el)"
      then obtain i where i: "i < length (take k el)" "take k el ! i = x"
        by (auto simp add: in_set_conv_nth)
      then have "i < k" "el ! i = x" by simp_all
      then have "0 \<le> x" "x < int n" using sel by auto
      then have "nat x \<in> ?B" "x = int (nat x)" using x by simp_all
      then show "x \<in> int ` ?B" by blast
    qed
    show "int ` ?B \<subseteq> set (take k el)" by auto
  qed
  then have "card (int ` ?B) = card (set (take k el))" by simp
  also have "\<dots> = k" using dist len by (simp add: distinct_card)
  finally have cardB: "card ?B = k" by (simp add: card_image)
  have "{e. e < n \<and> int e \<notin> set (take k el)} = {..<n} - ?B" by auto
  moreover have "?B \<subseteq> {..<n}" by auto
  ultimately show ?thesis using cardB by (simp add: card_Diff_subset)
qed

text \<open>
  Two selections for which the claim fails. On \<open>cpl_oct\<close> the export returns no array: it
  leaves the six values of the field's array. On \<open>cpl_big\<close>, the selection is the element
  \<open>2 ^ 30\<close> alone, of a parent mesh of \<open>2 ^ 30 + 1\<close> elements with four values each; element
  0 is not selected, and the round trip overwrites its first value, the 32-bit product
  \<open>2 ^ 30 * 4\<close> being 0.
\<close>

theorem export_import_on_parent_frame_counterexample:
  "cs_paramedmem_field_export True cpl_oct 0 True [1, 2, 3, 4, 5, 6, 7, 8] = Inl Out_of_bounds
   \<and> elt_list (mesh big_mesh) = Some [1073741824]
   \<and> 0 \<notin> set (take 1 [1073741824::int])
   \<and> length (replicate 4294967300 (9::double)) = 1073741825 * 4
   \<and> cs_paramedmem_field_export True (cpl_big [0, 0, 0, 0] 0) 0 True (replicate 4294967300 5)
       = Inr (cpl_big [5, 5, 5, 5] 1)
   \<and> cs_paramedmem_field_import True (cpl_big [5, 5, 5, 5] 1) 0 True (replicate 4294967300 9)
       = Inr ((replicate 4294967300 9)[0 := 5, 1 := 5, 2 := 5, 3 := 5])
   \<and> ((replicate 4294967300 9)[0 := 5, 1 := 5, 2 := 5, 3 := 5] :: double list) ! 0 = 5
   \<and> (replicate 4294967300 9 :: double list) ! 0 = 9"
proof -
  have "cs_paramedmem_field_export True cpl_oct 0 True [1, 2, 3, 4, 5, 6, 7, 8]
          = Inl Out_of_bounds"
    by (simp add: cs_paramedmem_field_export_def cpl_oct_def cpl01_def oct_field_def
        oct_mesh_def src_mesh_def copy_oct_def array_get_def array_set_def
        export_on_parent_def export_on_parent_row_def deref_def int32_def upt_rec)
  moreover have "cs_paramedmem_field_export True (cpl_big [0, 0, 0, 0] 0) 0 True
                   (replicate 4294967300 5) = Inr (cpl_big [5, 5, 5, 5] 1)"
    by (simp add: cs_paramedmem_field_export_def cpl_big_def big_field_def big_mesh_def
        cpl01_def array_get_def array_set_def export_on_parent_def export_on_parent_row_def
        deref_def int32_def upt_rec)
  moreover have "cs_paramedmem_field_import True (cpl_big [5, 5, 5, 5] 1) 0 True
                   (replicate 4294967300 9)
                   = Inr ((replicate 4294967300 9)[0 := 5, 1 := 5, 2 := 5, 3 := 5])"
    by (simp add: cs_paramedmem_field_import_def cpl_big_def big_field_def big_mesh_def
        cpl01_def array_get_def array_set_def import_on_parent_def import_on_parent_row_def
        deref_def int32_def upt_rec)
  ultimately show ?thesis by (simp add: big_mesh_def)
qed

text \<open>
  Claim C8, amended. Take a selection \<open>el\<close> of \<open>k\<close> distinct elements of a parent mesh of
  \<open>n\<close> elements, \<open>k \<le> n\<close>, a field whose array holds at least \<open>k * dm\<close> values, arrays
  \<open>src\<close> and \<open>dst\<close> indexed by the parent numbering, and let \<open>n * dm\<close> lie in the 32-bit
  range. Then \<^verbatim>\<open>cs_paramedmem_field_export\<close> followed by \<^verbatim>\<open>cs_paramedmem_field_import\<close>,
  both with \<open>on_parent\<close>, return, and in \<open>dst\<close> every component of every element that is not
  selected is as it was: only the entries addressed through \<^verbatim>\<open>elt_list\<close> are written. There
  are \<open>n - k\<close> unselected elements, hence \<open>(n - k) * dm\<close> such entries.
\<close>

theorem export_import_on_parent_frame:
  assumes fld: "field_of c field_id = Some fld"
    and msh: "mesh_of c (fld_mesh_id fld) = Some pmesh"
    and k: "n_elts (mesh pmesh) = int k"
    and dm: "fld_dim fld = int dm"
    and buf: "k * dm \<le> length (fd_array (fld_f fld))"
    and el: "elt_list (mesh pmesh) = Some el"
    and len: "k \<le> length el"
    and sel: "\<forall>i<k. 0 \<le> el ! i \<and> el ! i < int n"
    and dist: "distinct (take k el)"
    and src: "n * dm \<le> length src"
    and dst: "length dst = n * dm"
    and kn: "k \<le> n"
    and nlim: "n * dm < 2 ^ 31"
  shows "(\<exists>c' dst'. cs_paramedmem_field_export True c field_id True src = Inr c'
            \<and> cs_paramedmem_field_import True c' field_id True dst = Inr dst'
            \<and> length dst' = n * dm
            \<and> (\<forall>e<n. int e \<notin> set (take k el) \<longrightarrow>
                  (\<forall>j<dm. dst' ! (e * dm + j) = dst ! (e * dm + j))))
       \<and> card {e. e < n \<and> int e \<notin> set (take k el)} = n - k"
proof -
  have el': "(if True then elt_list (mesh pmesh) else new_to_old (mesh pmesh)) = Some el"
    using el by simp
  have rng: "\<forall>i<k. 0 \<le> el ! i \<and> nat (el ! i) * dm + dm \<le> length src
                      \<and> nat (el ! i) * dm + dm \<le> length dst"
  proof (intro allI impI)
    fix i assume i: "i < k"
    then have "0 \<le> el ! i" "nat (el ! i) < n" using sel by auto
    then show "0 \<le> el ! i \<and> nat (el ! i) * dm + dm \<le> length src
                 \<and> nat (el ! i) * dm + dm \<le> length dst"
      using row_within [of "nat (el ! i)" n dm] src dst by simp
  qed
  have inverse: "\<not> True \<longrightarrow> (\<forall>i<k. el ! i = int i)" by simp
  have lim: "\<forall>i<k. nat (el ! i) * dm + dm \<le> 2 ^ 31"
  proof (intro allI impI)
    fix i assume "i < k"
    then have "nat (el ! i) < n" using sel by auto
    from row_within [OF this, of dm] show "nat (el ! i) * dm + dm \<le> 2 ^ 31"
      using nlim by simp
  qed
  have klim: "k * dm < 2 ^ 31"
    by (rule le_less_trans [OF mult_le_mono1 [OF kn] nlim])
  from export_then_import [OF fld msh k dm buf el' len rng inverse lim klim]
  obtain c' dst' where
    ex: "cs_paramedmem_field_export True c field_id True src = Inr c'"
    and im: "cs_paramedmem_field_import True c' field_id True dst = Inr dst'"
    and l: "length dst' = length dst"
    and frame: "\<forall>p. (\<forall>i<k. p < nat (el ! i) * dm \<or> nat (el ! i) * dm + dm \<le> p)
                  \<longrightarrow> dst' ! p = dst ! p" by blast
  have "dst' ! (e * dm + j) = dst ! (e * dm + j)"
    if e: "e < n" "int e \<notin> set (take k el)" and j: "j < dm" for e j
  proof -
    have "e * dm + j < nat (el ! i) * dm \<or> nat (el ! i) * dm + dm \<le> e * dm + j"
      if i: "i < k" for i
    proof -
      have "el ! i \<in> set (take k el)"
        using i len by (auto simp add: in_set_conv_nth intro!: exI [of _ i])
      then have "el ! i \<noteq> int e" using e by auto
      moreover have "0 \<le> el ! i" using sel i by simp
      ultimately have "nat (el ! i) < e \<or> e < nat (el ! i)" by auto
      then show ?thesis
      proof
        assume "nat (el ! i) < e"
        from row_within [OF this, of dm] show ?thesis by simp
      next
        assume "e < nat (el ! i)"
        from row_within [OF this, of dm] show ?thesis using j by simp
      qed
    qed
    then show ?thesis using frame by blast
  qed
  then have "\<forall>e<n. int e \<notin> set (take k el) \<longrightarrow>
                  (\<forall>j<dm. dst' ! (e * dm + j) = dst ! (e * dm + j))" by blast
  with ex im l dst unselected_count [OF len sel dist] show ?thesis by auto
qed

text \<open>On \<open>cpl_sel\<close>, element 1 of the three is not selected: its two values stay.\<close>

theorem export_import_on_parent_frame_witness:
  "field_of cpl_sel 0 = Some sel_field
   \<and> mesh_of cpl_sel (fld_mesh_id sel_field) = Some sel_mesh
   \<and> elt_list (mesh sel_mesh) = Some [2, 0]
   \<and> distinct (take 2 [2, 0::int])
   \<and> int 1 \<notin> set (take 2 [2, 0::int])
   \<and> (\<exists>c' dst'. cs_paramedmem_field_export True cpl_sel 0 True [1, 2, 3, 4, 5, 6] = Inr c'
          \<and> cs_paramedmem_field_import True c' 0 True [9, 9, 9, 9, 9, 9] = Inr dst'
          \<and> length dst' = 6 \<and> dst' ! 2 = 9 \<and> dst' ! 3 = 9)
   \<and> card {e. e < 3 \<and> int e \<notin> set (take 2 [2, 0::int])} = 1"
proof -
  let ?src = "[1, 2, 3, 4, 5, 6] :: double list"
  let ?dst = "[9, 9, 9, 9, 9, 9] :: double list"
  have f: "field_of cpl_sel 0 = Some sel_field"
    by (simp add: field_of_def cpl_sel_def)
  have m: "mesh_of cpl_sel (fld_mesh_id sel_field) = Some sel_mesh"
    by (simp add: mesh_of_def cpl_sel_def sel_field_def)
  have k: "n_elts (mesh sel_mesh) = int 2" by (simp add: sel_mesh_def)
  have d: "fld_dim sel_field = int 2" by (simp add: sel_field_def)
  have buf: "2 * 2 \<le> length (fd_array (fld_f sel_field))" by (simp add: sel_field_def)
  have el: "elt_list (mesh sel_mesh) = Some [2, 0]" by (simp add: sel_mesh_def)
  have len: "2 \<le> length [2, 0::int]" by simp
  have sel: "\<forall>i<2. 0 \<le> [2, 0::int] ! i \<and> [2, 0] ! i < int 3"
    by (auto simp add: less_Suc_eq numeral_2_eq_2)
  have dist: "distinct (take 2 [2, 0::int])" by simp
  have src: "3 * 2 \<le> length ?src" and dst: "length ?dst = 3 * 2" by simp_all
  have kn: "(2::nat) \<le> 3" and nlim: "3 * 2 < (2::nat) ^ 31" by simp_all
  from export_import_on_parent_frame [OF f m k d buf el len sel dist src dst kn nlim]
  obtain c' dst' where
    run: "cs_paramedmem_field_export True cpl_sel 0 True ?src = Inr c'"
         "cs_paramedmem_field_import True c' 0 True ?dst = Inr dst'"
         "length dst' = 3 * 2"
    and frame: "\<forall>e<3. int e \<notin> set (take 2 [2, 0::int]) \<longrightarrow>
                  (\<forall>j<2. dst' ! (e * 2 + j) = ?dst ! (e * 2 + j))"
    and cnt: "card {e. e < 3 \<and> int e \<notin> set (take 2 [2, 0::int])} = 3 - 2" by blast
  have out: "int 1 \<notin> set (take 2 [2, 0::int])" by simp
  have e1: "(1::nat) < 3" and j0: "(0::nat) < 2" and j1: "(1::nat) < 2" by simp_all
  from frame e1 out have row: "\<forall>j<2. dst' ! (1 * 2 + j) = ?dst ! (1 * 2 + j)" by blast
  from row j0 have "dst' ! (1 * 2 + 0) = ?dst ! (1 * 2 + 0)" by blast
  moreover from row j1 have "dst' ! (1 * 2 + 1) = ?dst ! (1 * 2 + 1)" by blast
  ultimately have "dst' ! 2 = 9" "dst' ! 3 = 9" by simp_all
  with run have "\<exists>c' dst'. cs_paramedmem_field_export True cpl_sel 0 True ?src = Inr c'
          \<and> cs_paramedmem_field_import True c' 0 True ?dst = Inr dst'
          \<and> length dst' = 6 \<and> dst' ! 2 = 9 \<and> dst' ! 3 = 9" by auto
  then show ?thesis using f m el dist out cnt by simp
qed

end
